theory Spec2Isabelle
  imports Main "HOL-Library.Word"
begin

unbundle bit_operations_syntax

section \<open>Time, durations and errors\<close>

text \<open>
  Go's \<^verbatim>\<open>time.Duration\<close> is a signed 64-bit count of nanoseconds. It is modelled as an
  \<^typ>\<open>int\<close> with the two's-complement wrap-around of every addition and subtraction
  written out (\<open>dur_add\<close>, \<open>dur_sub\<close>). A \<^verbatim>\<open>time.Time\<close> is modelled as the number of
  nanoseconds since Go's zero time, so \<^verbatim>\<open>time.Time{}\<close> is \<open>0\<close>; \<^verbatim>\<open>Time.Sub\<close> saturates
  at the largest and smallest duration as the Go library does. A call of
  \<^verbatim>\<open>time.Now()\<close> is an argument \<open>now\<close> of the operation that makes it.
\<close>

type_synonym Duration = int
type_synonym Time = int

definition wrap64 :: "int \<Rightarrow> int" where
  "wrap64 x = (x + 2 ^ 63) mod 2 ^ 64 - 2 ^ 63"

definition dur_add :: "Duration \<Rightarrow> Duration \<Rightarrow> Duration" where
  "dur_add a b = wrap64 (a + b)"

definition dur_sub :: "Duration \<Rightarrow> Duration \<Rightarrow> Duration" where
  "dur_sub a b = wrap64 (a - b)"

definition maxDuration :: Duration where
  "maxDuration = 2 ^ 63 - 1"

definition minDuration :: Duration where
  "minDuration = - (2 ^ 63)"

definition Time_Sub :: "Time \<Rightarrow> Time \<Rightarrow> Duration" where
  "Time_Sub t u =
     (let d = t - u
      in if maxDuration < d then maxDuration
         else if d < minDuration then minDuration
         else d)"

definition Time_After :: "Time \<Rightarrow> Time \<Rightarrow> bool" where
  "Time_After t u = (u < t)"

definition millisecond :: Duration where
  "millisecond = 1000000"

definition second :: Duration where
  "second = 1000000000"

datatype error =
    ErrNoVideo
  | ErrNilAudioContext
  | ErrBadSampleRate
  | ErrTooManyChannels
  | EOF
  | ErrCannotSeekLive
  | ErrNilMediaOrStream
  | DecoderError nat

text \<open>A call either returns or panics; a panic carries its message.\<close>

datatype 'a outcome = Returned 'a | Panicked string

datatype PlaybackState = Stopped | Playing | Paused

datatype stopMode = stopModeManual | stopModeEndOfVideo

section \<open>The decoder collaborator\<close>

text \<open>
  The reisen demuxer and decoder are outside the repository. They are modelled by what
  the controllers observe of them: a decoded frame carries the result of
  \<^verbatim>\<open>PresentationOffset()\<close> and an identifier standing for its pixel data; the demuxer is
  the list of packets that \<^verbatim>\<open>ReadPacket\<close> will deliver from the current position, each
  packet carrying the result of the frame read that follows it. \<open>PktVideo\<close> and
  \<open>PktAudio\<close> are packets of the stream the controller has selected (a frame of
  \<open>None\<close> is a frame skip), \<open>PktOther\<close> is any packet of another type or stream index,
  \<open>PktReadErr\<close> a failing \<^verbatim>\<open>ReadPacket\<close>. The results of \<^verbatim>\<open>Rewind\<close>, \<^verbatim>\<open>Open\<close>,
  \<^verbatim>\<open>Close\<close>, \<^verbatim>\<open>OpenDecode\<close> and \<^verbatim>\<open>CloseDecode\<close> are fields of the media value.
\<close>

datatype VideoFrame = VideoFrame (PresentationOffset: "error + Duration") (pixels: nat)

datatype AudioFrame = AudioFrame (audioPresentationOffset: "error + Duration") (audioData: "8 word list")

datatype Packet =
    PktReadErr error
  | PktVideo "error + VideoFrame option"
  | PktAudio "error + AudioFrame option"
  | PktOther

record Media =
  pending :: "Packet list"
  videoRewindResult :: "Duration \<Rightarrow> error + Packet list"
  audioRewindResult :: "Duration \<Rightarrow> error + Packet list"
  openDecodeErr :: "error option"
  closeDecodeErr :: "error option"
  videoOpenErr :: "error option"
  videoCloseErr :: "error option"
  audioOpenErr :: "error option"
  audioCloseErr :: "error option"

definition videoRewind :: "Duration \<Rightarrow> Media \<Rightarrow> error + Media" where
  "videoRewind t m =
     (case videoRewindResult m t of
        Inl e \<Rightarrow> Inl e
      | Inr ps \<Rightarrow> Inr (m\<lparr>pending := ps\<rparr>))"

definition audioRewind :: "Duration \<Rightarrow> Media \<Rightarrow> error + Media" where
  "audioRewind t m =
     (case audioRewindResult m t of
        Inl e \<Rightarrow> Inl e
      | Inr ps \<Rightarrow> Inr (m\<lparr>pending := ps\<rparr>))"

section \<open>The video-only controller\<close>

text \<open>
  The mutex of the controller is not modelled: every call runs from its lock to its
  unlock as one step on the controller value, which it returns updated.
\<close>

record videoOnlyController =
  media :: Media
  duration :: Duration
  frameDuration :: Duration
  referenceTime :: Time
  referencePosition :: Duration
  looping :: bool
  videoPendingLoop :: bool
  state :: PlaybackState
  lastReadFrame :: "VideoFrame option"

text \<open>\<^verbatim>\<open>noLockStop\<close>: returns the error, if any, and the controller after the call.\<close>

definition noLockStop :: "stopMode \<Rightarrow> videoOnlyController \<Rightarrow> error option \<times> videoOnlyController" where
  "noLockStop videoStopMode c0 =
     (let c1 = c0\<lparr>videoPendingLoop := False\<rparr>;
          c2 = (if videoStopMode = stopModeManual
                then c1\<lparr>referencePosition := 0, lastReadFrame := None\<rparr>
                else c1)
      in if state c2 = Stopped then (None, c2)
         else
           let c3 = c2\<lparr>state := Stopped, referenceTime := 0\<rparr>;
               c4 = (if videoStopMode = stopModeEndOfVideo
                     then c3\<lparr>referencePosition := duration c3\<rparr>
                     else c3)
           in case videoRewind 0 (media c4) of
                Inl e \<Rightarrow> (Some e, c4)
              | Inr m \<Rightarrow>
                  (case videoCloseErr m of
                     Some e \<Rightarrow> (Some e, c4\<lparr>media := m\<rparr>)
                   | None \<Rightarrow> (closeDecodeErr m, c4\<lparr>media := m\<rparr>)))"

text \<open>
  \<^verbatim>\<open>noLockPosition\<close>: returns the position, whether the end of the video was handled as a
  side effect, the error, and the controller after the call. The warning that the code
  logs when it clamps \<open>now\<close> is not modelled; it changes neither the result nor the
  controller.
\<close>

definition noLockPosition ::
  "Time \<Rightarrow> videoOnlyController \<Rightarrow> Duration \<times> bool \<times> error option \<times> videoOnlyController" where
  "noLockPosition now0 c =
     (let now = (if Time_After (referenceTime c) now0 then referenceTime c else now0)
      in if state c = Playing then
           let position = dur_add (referencePosition c) (Time_Sub now (referenceTime c))
           in if position < duration c then (position, False, None, c)
              else if looping c then
                (case videoRewind 0 (media c) of
                   Inl e \<Rightarrow> (position, False, Some e, c)
                 | Inr m \<Rightarrow>
                     let c1 = c\<lparr>media := m, referenceTime := now,
                                 referencePosition := dur_sub position (duration c),
                                 videoPendingLoop := True\<rparr>
                     in (referencePosition c1, False, None, c1))
              else
                (case noLockStop stopModeEndOfVideo c of
                   (err, c1) \<Rightarrow>
                     let c2 = c1\<lparr>referencePosition := duration c1\<rparr>
                     in (referencePosition c2, True, err, c2))
         else (referencePosition c, False, None, c))"

text \<open>
  \<^verbatim>\<open>internalReadVideoFrame\<close>: reads packets until the next video frame of the selected
  stream; \<open>Inr None\<close> is the exhausted demuxer.
\<close>

fun readVideoFramePackets :: "Packet list \<Rightarrow> (error + VideoFrame option) \<times> Packet list" where
  "readVideoFramePackets [] = (Inr None, [])"
| "readVideoFramePackets (PktReadErr e # ps) = (Inl e, ps)"
| "readVideoFramePackets (PktVideo (Inl e) # ps) = (Inl e, ps)"
| "readVideoFramePackets (PktVideo (Inr None) # ps) = readVideoFramePackets ps"
| "readVideoFramePackets (PktVideo (Inr (Some frame)) # ps) = (Inr (Some frame), ps)"
| "readVideoFramePackets (PktAudio r # ps) = readVideoFramePackets ps"
| "readVideoFramePackets (PktOther # ps) = readVideoFramePackets ps"

definition internalReadVideoFrame ::
  "videoOnlyController \<Rightarrow> (error + VideoFrame option) \<times> videoOnlyController" where
  "internalReadVideoFrame c =
     (case readVideoFramePackets (pending (media c)) of
        (r, ps) \<Rightarrow> (r, c\<lparr>media := (media c)\<lparr>pending := ps\<rparr>\<rparr>))"

lemma readVideoFramePackets_length:
  "length (snd (readVideoFramePackets ps)) \<le> length ps"
  by (induction ps rule: readVideoFramePackets.induct) auto

lemma readVideoFramePackets_Some_length:
  "readVideoFramePackets ps = (Inr (Some f), qs) \<Longrightarrow> length qs < length ps"
proof (induction ps rule: readVideoFramePackets.induct)
  case (4 ps)
  then show ?case by fastforce
next
  case (6 r ps)
  then show ?case by fastforce
next
  case (7 ps)
  then show ?case by fastforce
qed auto

lemma internalReadVideoFrame_Some_length:
  "internalReadVideoFrame c = (Inr (Some f), c') \<Longrightarrow>
   length (pending (media c')) < length (pending (media c))"
  by (auto simp: internalReadVideoFrame_def split: prod.splits
           dest: readVideoFramePackets_Some_length)

text \<open>
  The catch-up loop of \<^verbatim>\<open>CurrentVideoFrame\<close>, with the local variables
  \<^verbatim>\<open>prevPresOffset\<close> and \<^verbatim>\<open>presOffset\<close> as arguments. The result is the frame, the
  end-reached flag, the error and the controller after the call.
\<close>

function catchUp ::
  "Time \<Rightarrow> Duration \<Rightarrow> Duration \<Rightarrow> Duration \<Rightarrow> videoOnlyController \<Rightarrow>
   VideoFrame option \<times> bool \<times> error option \<times> videoOnlyController" where
  "catchUp now position prevPresOffset presOffset c =
     (if dur_add presOffset (frameDuration c) < position \<or> videoPendingLoop c then
        (case internalReadVideoFrame
                (if videoPendingLoop c \<and> presOffset < prevPresOffset
                 then c\<lparr>videoPendingLoop := False\<rparr> else c) of
           (Inl e, c2) \<Rightarrow> (None, False, Some e, c2)
         | (Inr None, c2) \<Rightarrow>
             if looping c2 then
               (case videoRewind 0 (media c2) of
                  Inl e \<Rightarrow> (None, False, Some e, c2)
                | Inr m \<Rightarrow>
                    (lastReadFrame c2, False, None,
                     c2\<lparr>media := m, referenceTime := now, referencePosition := 0,
                        videoPendingLoop := True\<rparr>))
             else
               (case noLockStop stopModeEndOfVideo c2 of
                  (err, c3) \<Rightarrow> (lastReadFrame c3, True, err, c3))
         | (Inr (Some frame), c2) \<Rightarrow>
             (case PresentationOffset frame of
                Inl e \<Rightarrow> (None, False, Some e, c2)
              | Inr off \<Rightarrow>
                  catchUp now position presOffset off (c2\<lparr>lastReadFrame := Some frame\<rparr>)))
      else (lastReadFrame c, False, None, c))"
  by pat_completeness auto
termination
  apply (relation "measure (\<lambda>(now, position, prev, pres, c). length (pending (media c)))")
   apply simp
  apply (auto dest!: internalReadVideoFrame_Some_length [OF sym] split: if_splits)
  done

declare catchUp.simps [simp del]

definition CurrentVideoFrame ::
  "Time \<Rightarrow> videoOnlyController \<Rightarrow>
   VideoFrame option \<times> bool \<times> error option \<times> videoOnlyController" where
  "CurrentVideoFrame now c =
     (if state c = Stopped
      then (lastReadFrame c, referencePosition c = duration c, None, c)
      else
        (case noLockPosition now c of
           (position, endedAsSideEffect, Some e, c1) \<Rightarrow> (None, False, Some e, c1)
         | (position, endedAsSideEffect, None, c1) \<Rightarrow>
             if endedAsSideEffect then (lastReadFrame c1, True, None, c1)
             else
               (case lastReadFrame c1 of
                  None \<Rightarrow> catchUp now position 0 0 c1
                | Some f \<Rightarrow>
                    (case PresentationOffset f of
                       Inl e \<Rightarrow> (None, False, Some e, c1)
                     | Inr off \<Rightarrow> catchUp now position off off c1))))"

definition Play :: "Time \<Rightarrow> videoOnlyController \<Rightarrow> error option \<times> videoOnlyController" where
  "Play now c =
     (if state c \<noteq> Playing then
        if state c = Stopped then
          let c1 = c\<lparr>lastReadFrame := None, referencePosition := 0\<rparr>
          in case openDecodeErr (media c1) of
               Some e \<Rightarrow> (Some e, c1)
             | None \<Rightarrow>
                 (case videoOpenErr (media c1) of
                    Some e \<Rightarrow> (Some e, c1)
                  | None \<Rightarrow> (None, c1\<lparr>referenceTime := now, state := Playing\<rparr>))
        else (None, c\<lparr>referenceTime := now, state := Playing\<rparr>)
      else (None, c))"

definition State ::
  "Time \<Rightarrow> videoOnlyController \<Rightarrow> PlaybackState option \<times> error option \<times> videoOnlyController" where
  "State now c =
     (case noLockPosition now c of
        (position, ended, Some e, c1) \<Rightarrow> (None, Some e, c1)
      | (position, ended, None, c1) \<Rightarrow> (Some (state c1), None, c1))"

definition Pause :: "Time \<Rightarrow> videoOnlyController \<Rightarrow> error option \<times> videoOnlyController" where
  "Pause now c =
     (if state c \<noteq> Playing then (None, c)
      else
        (case noLockPosition now c of
           (position, endedAsSideEffect, Some e, c1) \<Rightarrow> (Some e, c1)
         | (position, endedAsSideEffect, None, c1) \<Rightarrow>
             if \<not> endedAsSideEffect
             then (None, c1\<lparr>state := Paused, referenceTime := now, referencePosition := position\<rparr>)
             else (None, c1)))"

definition Stop :: "videoOnlyController \<Rightarrow> error option \<times> videoOnlyController" where
  "Stop c = noLockStop stopModeManual c"

text \<open>\<^verbatim>\<open>Close\<close>: the release of the media handle after the stop is not modelled.\<close>

definition Close :: "videoOnlyController \<Rightarrow> error option \<times> videoOnlyController" where
  "Close c = noLockStop stopModeManual c"

definition Position ::
  "Time \<Rightarrow> videoOnlyController \<Rightarrow> Duration \<times> error option \<times> videoOnlyController" where
  "Position now c =
     (case noLockPosition now c of (position, ended, err, c1) \<Rightarrow> (position, err, c1))"

definition Duration :: "videoOnlyController \<Rightarrow> Duration" where
  "Duration c = duration c"

definition GetLooping :: "videoOnlyController \<Rightarrow> bool" where
  "GetLooping c = looping c"

definition SetLooping :: "bool \<Rightarrow> videoOnlyController \<Rightarrow> videoOnlyController" where
  "SetLooping loop c = c\<lparr>looping := loop\<rparr>"

text \<open>
  \<^verbatim>\<open>Seek\<close>: returns the frame, the error and the controller after the call. The read
  assigns \<^verbatim>\<open>lastReadFrame\<close> also when it fails (to nil).
\<close>

definition Seek ::
  "Duration \<Rightarrow> Time \<Rightarrow> videoOnlyController \<Rightarrow>
   VideoFrame option \<times> error option \<times> videoOnlyController" where
  "Seek position0 now c =
     (if duration c \<le> position0 then
        (case noLockStop stopModeManual c of (err, c1) \<Rightarrow> (None, err, c1))
      else
        let position = max position0 0
        in case videoRewind position (media c) of
             Inl e \<Rightarrow> (None, Some e, c)
           | Inr m \<Rightarrow>
               (case internalReadVideoFrame (c\<lparr>media := m\<rparr>) of
                  (Inl e, c1) \<Rightarrow> (None, Some e, c1\<lparr>lastReadFrame := None\<rparr>)
                | (Inr frame, c1) \<Rightarrow>
                    (frame, None,
                     c1\<lparr>lastReadFrame := frame, referencePosition := position,
                        referenceTime := now\<rparr>)))"

text \<open>
  \<^verbatim>\<open>newVideoOnlyController\<close>, given the stream's frame rate and the result of its
  \<^verbatim>\<open>Duration()\<close>. A nil media or stream panics, and so does the integer division by a
  zero frame-rate numerator. Go's division truncates towards zero.
\<close>

definition go_div :: "int \<Rightarrow> int \<Rightarrow> int" where
  "go_div a b = sgn a * sgn b * (\<bar>a\<bar> div \<bar>b\<bar>)"

record VideoStream =
  frameRateNum :: int
  frameRateDenom :: int
  videoDurationResult :: "error + Duration"
  width :: int
  height :: int

definition computeFrameDuration :: "VideoStream \<Rightarrow> Duration outcome" where
  "computeFrameDuration vs =
     (if frameRateNum vs = 0 then Panicked ''integer divide by zero''
      else Returned (go_div (wrap64 (second * frameRateDenom vs)) (frameRateNum vs)))"

definition newVideoOnlyController ::
  "Time \<Rightarrow> Media option \<Rightarrow> VideoStream option \<Rightarrow> (error + videoOnlyController) outcome" where
  "newVideoOnlyController now mediaPtr videoStream =
     (case (mediaPtr, videoStream) of
        (Some m, Some vs) \<Rightarrow>
          (case computeFrameDuration vs of
             Panicked msg \<Rightarrow> Panicked msg
           | Returned fd \<Rightarrow>
               (case videoDurationResult vs of
                  Inl e \<Rightarrow> Returned (Inl e)
                | Inr d \<Rightarrow>
                    Returned (Inr \<lparr>media = m, duration = d, frameDuration = fd,
                                   referenceTime = now, referencePosition = 0,
                                   looping = False, videoPendingLoop = False,
                                   state = Stopped, lastReadFrame = None\<rparr>)))
      | _ \<Rightarrow> Panicked ''nil media or video stream'')"

section \<open>The audio-driven controller\<close>

text \<open>
  The ebitengine audio player is outside the repository: it is modelled by the result of
  its \<^verbatim>\<open>Close()\<close> and by whether it is playing, and the value its \<^verbatim>\<open>Position()\<close>
  returns at a call is an argument \<open>sinkPosition\<close> of that call. The audio context is
  modelled by its sample rate and by the result of \<^verbatim>\<open>NewPlayer\<close>. The volume and mute
  fields only feed the player and are left out.
\<close>

record AudioPlayer =
  playerCloseErr :: "error option"
  playerPlaying :: bool

record AudioContext =
  contextSampleRate :: int
  newPlayerResult :: "error + AudioPlayer"

record AudioStream =
  sampleRate :: int
  channelCount :: int
  audioDurationResult :: "error + Duration"

record videoWithAudioController =
  media_av :: Media
  context_av :: AudioContext
  duration_av :: Duration
  frameDuration_av :: Duration
  looping_av :: bool
  videoPendingLoop_av :: bool
  state_av :: PlaybackState
  lastReadFrame_av :: "VideoFrame option"
  leftoverVideo :: "VideoFrame list"
  audioPlayer :: "AudioPlayer option"
  leftoverAudio :: "8 word list"
  firstAudioFrameOffsetOnPlay :: Duration
  needsFirstAudioFrameOffset :: bool
  staticPosition :: Duration

definition noLockEnsureAudioHalt ::
  "videoWithAudioController \<Rightarrow> error option \<times> videoWithAudioController" where
  "noLockEnsureAudioHalt c =
     (case audioPlayer c of
        Some p \<Rightarrow>
          (case playerCloseErr p of
             Some e \<Rightarrow> (Some e, c\<lparr>audioPlayer := Some (p\<lparr>playerPlaying := False\<rparr>)\<rparr>)
           | None \<Rightarrow>
               (None, c\<lparr>audioPlayer := None, leftoverAudio := [],
                         needsFirstAudioFrameOffset := True\<rparr>))
      | None \<Rightarrow> (None, c\<lparr>leftoverAudio := [], needsFirstAudioFrameOffset := True\<rparr>))"

text \<open>The rewinds and closes that end \<^verbatim>\<open>noLockStop\<close> of the audio-driven controller.\<close>

definition rewindAndClose_av ::
  "videoWithAudioController \<Rightarrow> error option \<times> videoWithAudioController" where
  "rewindAndClose_av c =
     (case videoRewind 0 (media_av c) of
        Inl e \<Rightarrow> (Some e, c)
      | Inr m1 \<Rightarrow>
          (case audioRewind 0 m1 of
             Inl e \<Rightarrow> (Some e, c\<lparr>media_av := m1\<rparr>)
           | Inr m2 \<Rightarrow>
               (case videoCloseErr m2 of
                  Some e \<Rightarrow> (Some e, c\<lparr>media_av := m2\<rparr>)
                | None \<Rightarrow>
                    (case audioCloseErr m2 of
                       Some e \<Rightarrow> (Some e, c\<lparr>media_av := m2\<rparr>)
                     | None \<Rightarrow> (closeDecodeErr m2, c\<lparr>media_av := m2\<rparr>)))))"

definition stopLogic_av ::
  "stopMode \<Rightarrow> videoWithAudioController \<Rightarrow> error option \<times> videoWithAudioController" where
  "stopLogic_av videoStopMode c =
     (if state_av c = Stopped then (None, c)
      else
        let c1 = c\<lparr>state_av := Stopped\<rparr>
        in if videoStopMode = stopModeEndOfVideo then
             (case noLockEnsureAudioHalt c1 of
                (Some e, c2) \<Rightarrow> (Some e, c2)
              | (None, c2) \<Rightarrow>
                  rewindAndClose_av
                    (c2\<lparr>firstAudioFrameOffsetOnPlay := 0, staticPosition := duration_av c2,
                        videoPendingLoop_av := False\<rparr>))
           else rewindAndClose_av c1)"

definition noLockStop_av ::
  "stopMode \<Rightarrow> videoWithAudioController \<Rightarrow> error option \<times> videoWithAudioController" where
  "noLockStop_av videoStopMode c =
     (if videoStopMode = stopModeManual then
        (case noLockEnsureAudioHalt c of
           (Some e, c1) \<Rightarrow> (Some e, c1)
         | (None, c1) \<Rightarrow>
             stopLogic_av videoStopMode
               (c1\<lparr>firstAudioFrameOffsetOnPlay := 0, staticPosition := 0,
                   lastReadFrame_av := None, leftoverVideo := [],
                   videoPendingLoop_av := False\<rparr>))
      else stopLogic_av videoStopMode c)"

definition noLockPosition_av ::
  "Duration \<Rightarrow> videoWithAudioController \<Rightarrow>
   Duration \<times> bool \<times> error option \<times> videoWithAudioController" where
  "noLockPosition_av sinkPosition c =
     (if audioPlayer c = None \<or> needsFirstAudioFrameOffset c
      then (staticPosition c, False, None, c)
      else
        let position = dur_add (firstAudioFrameOffsetOnPlay c) sinkPosition
        in if position < duration_av c then (position, False, None, c)
           else
             (case noLockStop_av stopModeEndOfVideo c of
                (err, c1) \<Rightarrow> (duration_av c1, True, err, c1)))"

definition noLockCreateAudioPlayer ::
  "videoWithAudioController \<Rightarrow> error option \<times> videoWithAudioController" where
  "noLockCreateAudioPlayer c =
     (case newPlayerResult (context_av c) of
        Inl e \<Rightarrow> (Some e, c\<lparr>audioPlayer := None\<rparr>)
      | Inr p \<Rightarrow> (None, c\<lparr>audioPlayer := Some p, needsFirstAudioFrameOffset := True\<rparr>))"

definition playerPlay :: "videoWithAudioController \<Rightarrow> videoWithAudioController" where
  "playerPlay c =
     (case audioPlayer c of
        Some p \<Rightarrow> c\<lparr>audioPlayer := Some (p\<lparr>playerPlaying := True\<rparr>)\<rparr>
      | None \<Rightarrow> c)"

definition noLockHackyAudioReset ::
  "videoWithAudioController \<Rightarrow> error option \<times> videoWithAudioController" where
  "noLockHackyAudioReset c =
     (case noLockCreateAudioPlayer c of
        (Some e, c1) \<Rightarrow> (Some e, c1)
      | (None, c1) \<Rightarrow> (None, playerPlay c1))"

definition noLockRewindForLooping ::
  "videoWithAudioController \<Rightarrow> error option \<times> videoWithAudioController" where
  "noLockRewindForLooping c =
     (case audioRewind 0 (media_av c) of
        Inl e \<Rightarrow> (Some e, c)
      | Inr m1 \<Rightarrow>
          (case videoRewind 0 m1 of
             Inl e \<Rightarrow> (Some e, c\<lparr>media_av := m1\<rparr>)
           | Inr m2 \<Rightarrow> (None, c\<lparr>media_av := m2, videoPendingLoop_av := True\<rparr>)))"

text \<open>
  \<^verbatim>\<open>noLockCopyLeftoverAudio\<close> for a buffer of \<open>n\<close> bytes: the number of bytes copied,
  the bytes written to the front of the buffer, and the controller after the call.
\<close>

definition noLockCopyLeftoverAudio ::
  "nat \<Rightarrow> videoWithAudioController \<Rightarrow> nat \<times> 8 word list \<times> videoWithAudioController" where
  "noLockCopyLeftoverAudio n c =
     (let copiedBytes = min n (length (leftoverAudio c))
      in if length (leftoverAudio c) \<le> copiedBytes
         then (copiedBytes, take copiedBytes (leftoverAudio c), c\<lparr>leftoverAudio := []\<rparr>)
         else (copiedBytes, take copiedBytes (leftoverAudio c),
               c\<lparr>leftoverAudio := drop copiedBytes (leftoverAudio c)\<rparr>))"

text \<open>
  \<^verbatim>\<open>internalReadAudioFrame\<close>: the packet loop, on the packets still to be delivered.
  A failing \<^verbatim>\<open>PresentationOffset()\<close> of the first audio frame is taken to return a zero
  offset with its error.
\<close>

fun readAudioFramePackets ::
  "Packet list \<Rightarrow> videoWithAudioController \<Rightarrow> error option \<times> Packet list \<times> videoWithAudioController" where
  "readAudioFramePackets [] c = (None, [], c)"
| "readAudioFramePackets (PktReadErr e # ps) c = (Some e, ps, c)"
| "readAudioFramePackets (PktVideo (Inl e) # ps) c = (Some e, ps, c)"
| "readAudioFramePackets (PktVideo (Inr None) # ps) c = readAudioFramePackets ps c"
| "readAudioFramePackets (PktVideo (Inr (Some frame)) # ps) c =
     readAudioFramePackets ps (c\<lparr>leftoverVideo := leftoverVideo c @ [frame]\<rparr>)"
| "readAudioFramePackets (PktAudio (Inl e) # ps) c = (Some e, ps, c)"
| "readAudioFramePackets (PktAudio (Inr None) # ps) c = readAudioFramePackets ps c"
| "readAudioFramePackets (PktAudio (Inr (Some frame)) # ps) c =
     (let c1 = c\<lparr>leftoverAudio := leftoverAudio c @ audioData frame\<rparr>
      in if needsFirstAudioFrameOffset c1 then
           (case audioPresentationOffset frame of
              Inl e \<Rightarrow> (Some e, ps, c1\<lparr>firstAudioFrameOffsetOnPlay := 0\<rparr>)
            | Inr off \<Rightarrow>
                (None, ps, c1\<lparr>firstAudioFrameOffsetOnPlay := off,
                              needsFirstAudioFrameOffset := False\<rparr>))
         else (None, ps, c1))"
| "readAudioFramePackets (PktOther # ps) c = readAudioFramePackets ps c"

definition internalReadAudioFrame ::
  "videoWithAudioController \<Rightarrow> error option \<times> videoWithAudioController" where
  "internalReadAudioFrame c =
     (case readAudioFramePackets (pending (media_av c)) c of
        (err, ps, c1) \<Rightarrow> (err, c1\<lparr>media_av := (media_av c1)\<lparr>pending := ps\<rparr>\<rparr>))"

text \<open>
  The decode loop of \<^verbatim>\<open>Read\<close>: \<open>need\<close> is the length of the part of the buffer still to
  fill, \<open>servedBytes\<close> the count so far and \<open>written\<close> the bytes written so far.
\<close>

function decodeLoop_av ::
  "nat \<Rightarrow> nat \<Rightarrow> 8 word list \<Rightarrow> videoWithAudioController \<Rightarrow>
   nat \<times> 8 word list \<times> error option \<times> videoWithAudioController" where
  "decodeLoop_av need servedBytes written c =
     (if 0 < need then
        (case internalReadAudioFrame c of
           (Some e, c1) \<Rightarrow> (servedBytes, written, Some e, c1)
         | (None, c1) \<Rightarrow>
             if length (leftoverAudio c1) = 0 then
               (if looping_av c1 then
                  (case noLockRewindForLooping (c1\<lparr>audioPlayer := None\<rparr>) of
                     (Some e, c3) \<Rightarrow> (servedBytes, written, Some e, c3)
                   | (None, c3) \<Rightarrow>
                       (case noLockHackyAudioReset c3 of
                          (Some e, c4) \<Rightarrow> (servedBytes, written, Some e, c4)
                        | (None, c4) \<Rightarrow> (servedBytes, written, Some EOF, c4)))
                else
                  (case noLockStop_av stopModeEndOfVideo (c1\<lparr>audioPlayer := None\<rparr>) of
                     (Some e, c3) \<Rightarrow> (servedBytes, written, Some e, c3)
                   | (None, c3) \<Rightarrow> (servedBytes, written, Some EOF, c3)))
             else
               (case noLockCopyLeftoverAudio need c1 of
                  (copiedBytes, bytes, c2) \<Rightarrow>
                    decodeLoop_av (need - copiedBytes) (servedBytes + copiedBytes)
                      (written @ bytes) c2))
      else (servedBytes, written, None, c))"
  by pat_completeness auto
termination
  apply (relation "measure (\<lambda>(need, servedBytes, written, c). need)")
   apply simp
  apply (auto simp: noLockCopyLeftoverAudio_def Let_def split: if_splits)
  done

declare decodeLoop_av.simps [simp del]

definition MaxInt :: nat where
  "MaxInt = 2 ^ 63 - 1"

text \<open>
  \<^verbatim>\<open>Read\<close> for a buffer of \<open>n\<close> bytes. The constant \<^verbatim>\<open>panicOnPartialSampleReads\<close> is the
  argument \<open>strict\<close>; the repository fixes it to false.
\<close>

definition panicOnPartialSampleReads :: bool where
  "panicOnPartialSampleReads = False"

definition Read ::
  "bool \<Rightarrow> nat \<Rightarrow> videoWithAudioController \<Rightarrow>
   (nat \<times> 8 word list \<times> error option \<times> videoWithAudioController) outcome" where
  "Read strict n0 c =
     (if n0 AND 3 \<noteq> 0 \<and> strict
      then Panicked ''ebitengine should only provide buffers multiple of 4 for serving L16 audio data''
      else
        let n = (if n0 AND 3 \<noteq> 0 then n0 AND (MaxInt - 3) else n0)
        in Returned
             (case (if 0 < length (leftoverAudio c)
                    then noLockCopyLeftoverAudio n c else (0, [], c)) of
                (copiedBytes, bytes, c1) \<Rightarrow>
                  if n - copiedBytes = 0 then (copiedBytes, bytes, None, c1)
                  else decodeLoop_av (n - copiedBytes) copiedBytes bytes c1))"

definition Seek_av ::
  "Duration \<Rightarrow> videoWithAudioController \<Rightarrow>
   (VideoFrame option \<times> error option \<times> videoWithAudioController) outcome" where
  "Seek_av position c = Panicked ''unimplemented''"

definition Play_av ::
  "videoWithAudioController \<Rightarrow> error option \<times> videoWithAudioController" where
  "Play_av c =
     (if state_av c \<noteq> Playing then
        (case (if state_av c = Stopped then
                 (case openDecodeErr (media_av c) of
                    Some e \<Rightarrow> (Some e, c)
                  | None \<Rightarrow>
                      (case videoOpenErr (media_av c) of
                         Some e \<Rightarrow> (Some e, c)
                       | None \<Rightarrow>
                           (case audioOpenErr (media_av c) of
                              Some e \<Rightarrow> (Some e, c)
                            | None \<Rightarrow>
                                (None, c\<lparr>leftoverAudio := [], leftoverVideo := [],
                                          lastReadFrame_av := None,
                                          firstAudioFrameOffsetOnPlay := 0\<rparr>))))
               else (None, c)) of
           (Some e, c1) \<Rightarrow> (Some e, c1)
         | (None, c1) \<Rightarrow>
             (case (if audioPlayer c1 = None then noLockCreateAudioPlayer c1 else (None, c1)) of
                (Some e, c2) \<Rightarrow> (Some e, c2)
              | (None, c2) \<Rightarrow> (None, playerPlay (c2\<lparr>state_av := Playing\<rparr>))))
      else (None, c))"

definition Pause_av ::
  "Duration \<Rightarrow> videoWithAudioController \<Rightarrow> error option \<times> videoWithAudioController" where
  "Pause_av sinkPosition c =
     (if state_av c \<noteq> Playing then (None, c)
      else
        (case noLockPosition_av sinkPosition c of
           (position, endedAsSideEffect, Some e, c1) \<Rightarrow> (Some e, c1)
         | (position, endedAsSideEffect, None, c1) \<Rightarrow>
             if \<not> endedAsSideEffect then
               (case noLockEnsureAudioHalt (c1\<lparr>state_av := Paused\<rparr>) of
                  (Some e, c2) \<Rightarrow> (Some e, c2)
                | (None, c2) \<Rightarrow>
                    (None, c2\<lparr>firstAudioFrameOffsetOnPlay := position,
                              staticPosition := position\<rparr>))
             else (None, c1)))"

definition Stop_av ::
  "videoWithAudioController \<Rightarrow> error option \<times> videoWithAudioController" where
  "Stop_av c = noLockStop_av stopModeManual c"

definition Position_av ::
  "Duration \<Rightarrow> videoWithAudioController \<Rightarrow> Duration \<times> error option \<times> videoWithAudioController" where
  "Position_av sinkPosition c =
     (case noLockPosition_av sinkPosition c of (position, ended, err, c1) \<Rightarrow> (position, err, c1))"




text \<open>
  \<^verbatim>\<open>newVideoWithAudioController\<close>, given the current audio context (\<open>None\<close> when
  there is none). The volume is left out, see above.
\<close>

definition newVideoWithAudioController ::
  "Media option \<Rightarrow> VideoStream option \<Rightarrow> AudioStream option \<Rightarrow> AudioContext option \<Rightarrow>
   (error + videoWithAudioController) outcome" where
  "newVideoWithAudioController mediaPtr videoStream audioStream audioContext =
     (case (mediaPtr, videoStream, audioStream) of
        (Some m, Some vs, Some as) \<Rightarrow>
          (case audioContext of
             None \<Rightarrow> Returned (Inl ErrNilAudioContext)
           | Some ctx \<Rightarrow>
               if contextSampleRate ctx \<noteq> sampleRate as then Returned (Inl ErrBadSampleRate)
               else
                 (case computeFrameDuration vs of
                    Panicked msg \<Rightarrow> Panicked msg
                  | Returned fd \<Rightarrow>
                      (case videoDurationResult vs of
                         Inl e \<Rightarrow> Returned (Inl e)
                       | Inr videoDuration \<Rightarrow>
                           (case audioDurationResult as of
                              Inl e \<Rightarrow> Returned (Inl e)
                            | Inr audioDuration \<Rightarrow>
                                Returned
                                  (Inr \<lparr>media_av = m, context_av = ctx,
                                        duration_av = max videoDuration audioDuration,
                                        frameDuration_av = fd, looping_av = False,
                                        videoPendingLoop_av = False, state_av = Stopped,
                                        lastReadFrame_av = None, leftoverVideo = [],
                                        audioPlayer = None, leftoverAudio = [],
                                        firstAudioFrameOffsetOnPlay = 0,
                                        needsFirstAudioFrameOffset = False,
                                        staticPosition = 0\<rparr>)))))
      | _ \<Rightarrow> Panicked ''nil media or video or audio stream'')"

section \<open>The live-stream controller\<close>

text \<open>
  The three channels of the controller are modelled by whether they exist (are not
  nil): they are made together by \<^verbatim>\<open>Play\<close> from Stopped, which starts the decode and
  schedule goroutines, and closed together by \<^verbatim>\<open>noLockStop\<close>, which waits for the
  goroutines to end. The interleaving of the goroutines with the calls is not modelled:
  one pass of the schedule loop over a decoded frame is the function \<open>scheduleFrame\<close>,
  and it can run only while the stop channel exists.
\<close>

record streamVideoController =
  media_st :: Media
  state_st :: PlaybackState
  referenceTime_st :: Time
  referencePosition_st :: Duration
  lastReadFrame_st :: "VideoFrame option"
  havePTSBase :: bool
  ptsBase :: Duration
  wallBase :: Time
  jitter :: Duration
  stopCh :: bool
  decodedCh :: bool
  errCh :: bool

definition defaultJitter :: Duration where
  "defaultJitter = 15 * millisecond"

definition newStreamVideoController ::
  "Media option \<Rightarrow> VideoStream option \<Rightarrow> error + streamVideoController" where
  "newStreamVideoController mediaPtr s =
     (case (mediaPtr, s) of
        (Some m, Some vs) \<Rightarrow>
          Inr \<lparr>media_st = m, state_st = Stopped, referenceTime_st = 0,
               referencePosition_st = 0, lastReadFrame_st = None, havePTSBase = False,
               ptsBase = 0, wallBase = 0, jitter = defaultJitter,
               stopCh = False, decodedCh = False, errCh = False\<rparr>
      | _ \<Rightarrow> Inl ErrNilMediaOrStream)"

text \<open>\<^verbatim>\<open>Play\<close>, given the result of \<^verbatim>\<open>reisen.NetworkInitialize()\<close>.\<close>

definition Play_st ::
  "error option \<Rightarrow> Time \<Rightarrow> streamVideoController \<Rightarrow> error option \<times> streamVideoController" where
  "Play_st networkInitErr now c =
     (case networkInitErr of
        Some e \<Rightarrow> (Some e, c)
      | None \<Rightarrow>
          if state_st c = Playing then (None, c)
          else if state_st c = Stopped then
            let c1 = c\<lparr>lastReadFrame_st := None, referencePosition_st := 0,
                        havePTSBase := False\<rparr>
            in case openDecodeErr (media_st c1) of
                 Some e \<Rightarrow> (Some e, c1)
               | None \<Rightarrow>
                   (case videoOpenErr (media_st c1) of
                      Some e \<Rightarrow> (Some e, c1)
                    | None \<Rightarrow>
                        (None, c1\<lparr>stopCh := True, decodedCh := True, errCh := True,
                                   referenceTime_st := now, state_st := Playing\<rparr>))
          else (None, c\<lparr>referenceTime_st := now, state_st := Playing\<rparr>))"

definition noLockPosition_st ::
  "Time \<Rightarrow> streamVideoController \<Rightarrow> Duration \<times> bool \<times> error option" where
  "noLockPosition_st now0 c =
     (let now = (if Time_After (referenceTime_st c) now0 then referenceTime_st c else now0)
      in if state_st c = Playing
         then (dur_add (referencePosition_st c) (Time_Sub now (referenceTime_st c)), False, None)
         else (referencePosition_st c, False, None))"

definition State_st :: "Time \<Rightarrow> streamVideoController \<Rightarrow> PlaybackState \<times> error option" where
  "State_st now c = (state_st c, None)"

definition Pause_st ::
  "Time \<Rightarrow> streamVideoController \<Rightarrow> error option \<times> streamVideoController" where
  "Pause_st now c =
     (if state_st c \<noteq> Playing then (None, c)
      else
        (case noLockPosition_st now c of
           (pos, ended, err) \<Rightarrow>
             (None, c\<lparr>state_st := Paused, referenceTime_st := now, referencePosition_st := pos\<rparr>)))"

definition noLockStop_st ::
  "stopMode \<Rightarrow> streamVideoController \<Rightarrow> error option \<times> streamVideoController" where
  "noLockStop_st videoStopMode c =
     (let c1 = c\<lparr>stopCh := False, decodedCh := False, errCh := False,
                 referencePosition_st := 0, lastReadFrame_st := None\<rparr>
      in if state_st c1 = Stopped then (None, c1)
         else
           let c2 = c1\<lparr>state_st := Stopped, referenceTime_st := 0\<rparr>
           in case videoCloseErr (media_st c2) of
                Some e \<Rightarrow> (Some e, c2)
              | None \<Rightarrow> (closeDecodeErr (media_st c2), c2))"

definition Stop_st :: "streamVideoController \<Rightarrow> error option \<times> streamVideoController" where
  "Stop_st c = noLockStop_st stopModeManual c"

definition Close_st :: "streamVideoController \<Rightarrow> error option \<times> streamVideoController" where
  "Close_st c = noLockStop_st stopModeManual c"

definition Position_st :: "Time \<Rightarrow> streamVideoController \<Rightarrow> Duration \<times> error option" where
  "Position_st now c = (case noLockPosition_st now c of (pos, ended, err) \<Rightarrow> (pos, err))"

definition Duration_st :: "streamVideoController \<Rightarrow> Duration" where
  "Duration_st c = 0"

definition Seek_st ::
  "Duration \<Rightarrow> streamVideoController \<Rightarrow> (VideoFrame option \<times> error option) outcome" where
  "Seek_st position c = Returned (None, Some ErrCannotSeekLive)"

definition GetLooping_st :: "streamVideoController \<Rightarrow> bool" where
  "GetLooping_st c = False"

text \<open>
  \<^verbatim>\<open>SetLooping\<close> has no result in the source and an empty body: the outcome is the
  unchanged controller.
\<close>

definition SetLooping_st :: "bool \<Rightarrow> streamVideoController \<Rightarrow> streamVideoController outcome" where
  "SetLooping_st loop c = Returned c"

definition CurrentVideoFrame_st ::
  "streamVideoController \<Rightarrow> VideoFrame option \<times> bool \<times> error option" where
  "CurrentVideoFrame_st c = (lastReadFrame_st c, False, None)"

text \<open>
  One pass of \<^verbatim>\<open>scheduleLoop\<close> over a frame received from the decode goroutine:
  \<open>nowBase\<close> is the clock read when the base is recorded and \<open>nowPublish\<close> the clock read
  at publication. A frame without a presentation offset is dropped.
\<close>

definition scheduleFrame ::
  "VideoFrame \<Rightarrow> Time \<Rightarrow> Time \<Rightarrow> streamVideoController \<Rightarrow> streamVideoController" where
  "scheduleFrame f nowBase nowPublish c =
     (case PresentationOffset f of
        Inl e \<Rightarrow> c
      | Inr pts \<Rightarrow>
          let c1 = (if \<not> havePTSBase c
                    then c\<lparr>ptsBase := pts, wallBase := nowBase, havePTSBase := True\<rparr>
                    else c)
          in c1\<lparr>lastReadFrame_st := Some f,
                referencePosition_st := dur_sub pts (ptsBase c1),
                referenceTime_st := nowPublish\<rparr>)"

section \<open>The player facade: construction\<close>

text \<open>
  \<^verbatim>\<open>newPlayer\<close>, given the result of \<^verbatim>\<open>reisen.NewMedia\<close> (the container with its
  video and audio streams), the current audio context and the clock. The image of the
  player is left out.
\<close>

record Container =
  containerMedia :: Media
  videoStreams :: "VideoStream list"
  audioStreams :: "AudioStream list"

datatype controller =
    VideoOnly videoOnlyController
  | VideoWithAudio videoWithAudioController
  | StreamVideo streamVideoController

record Player =
  controllerOf :: controller
  playerFrameDuration :: Duration
  onBlackFrame :: bool
  reachedEnd :: bool
  currentPresOffset :: Duration

definition newPlayer ::
  "error + Container \<Rightarrow> bool \<Rightarrow> AudioContext option \<Rightarrow> Time \<Rightarrow> (error + Player) outcome" where
  "newPlayer newMediaResult ignoreAudio audioContext now =
     (case newMediaResult of
        Inl e \<Rightarrow> Returned (Inl e)
      | Inr container \<Rightarrow>
          (case videoStreams container of
             [] \<Rightarrow> Returned (Inl ErrNoVideo)
           | videoStream # otherVideo \<Rightarrow>
               (case computeFrameDuration videoStream of
                  Panicked msg \<Rightarrow> Panicked msg
                | Returned fd \<Rightarrow>
                    (case (if 0 < length (audioStreams container) \<and> \<not> ignoreAudio
                           then (case newVideoWithAudioController (Some (containerMedia container))
                                        (Some videoStream) (Some (hd (audioStreams container)))
                                        audioContext of
                                   Panicked msg \<Rightarrow> Panicked msg
                                 | Returned (Inl e) \<Rightarrow> Returned (Inl e)
                                 | Returned (Inr c) \<Rightarrow> Returned (Inr (VideoWithAudio c)))
                           else (case newVideoOnlyController now (Some (containerMedia container))
                                        (Some videoStream) of
                                   Panicked msg \<Rightarrow> Panicked msg
                                 | Returned (Inl e) \<Rightarrow> Returned (Inl e)
                                 | Returned (Inr c) \<Rightarrow> Returned (Inr (VideoOnly c)))) of
                       Panicked msg \<Rightarrow> Panicked msg
                     | Returned (Inl e) \<Rightarrow> Returned (Inl e)
                     | Returned (Inr ctl) \<Rightarrow>
                         Returned (Inr \<lparr>controllerOf = ctl, playerFrameDuration = fd,
                                        onBlackFrame = True, reachedEnd = False,
                                        currentPresOffset = 0\<rparr>)))))"

section \<open>Notions used in the statements\<close>

text \<open>
  Packets that \<^verbatim>\<open>internalReadVideoFrame\<close> of the video-only controller passes over
  without returning: frame skips and packets of other streams.
\<close>

fun isSkipped :: "Packet \<Rightarrow> bool" where
  "isSkipped (PktReadErr e) = False"
| "isSkipped (PktVideo (Inl e)) = False"
| "isSkipped (PktVideo (Inr None)) = True"
| "isSkipped (PktVideo (Inr (Some f))) = False"
| "isSkipped (PktAudio r) = True"
| "isSkipped PktOther = True"

text \<open>
  The presentation offset of a frame whose \<^verbatim>\<open>PresentationOffset()\<close> succeeds. A frame is
  stale at a position when the catch-up loop reads past it: its offset plus the frame
  duration, added as the code adds them, is below the position.
\<close>

definition offsetOf :: "VideoFrame \<Rightarrow> Duration" where
  "offsetOf f = (case PresentationOffset f of Inl e \<Rightarrow> 0 | Inr off \<Rightarrow> off)"

definition stale :: "Duration \<Rightarrow> Duration \<Rightarrow> VideoFrame \<Rightarrow> bool" where
  "stale position fd f = (dur_add (offsetOf f) fd < position)"

text \<open>
  The frames that a list of packets delivers to the video-only controller, in order, and
  the packets that it reads without an error.
\<close>

fun framesOf :: "Packet list \<Rightarrow> VideoFrame list" where
  "framesOf [] = []"
| "framesOf (PktVideo (Inr (Some f)) # ps) = f # framesOf ps"
| "framesOf (p # ps) = framesOf ps"

fun readable :: "Packet \<Rightarrow> bool" where
  "readable (PktReadErr e) = False"
| "readable (PktVideo (Inl e)) = False"
| "readable (PktVideo (Inr None)) = True"
| "readable (PktVideo (Inr (Some f))) = (case PresentationOffset f of Inl e \<Rightarrow> False | Inr off \<Rightarrow> True)"
| "readable (PktAudio r) = True"
| "readable PktOther = True"

text \<open>
  Frames that each follow their predecessor (the first one follows the offset \<open>off\<close>)
  by at most the frame duration.
\<close>

fun spacedWithin :: "Duration \<Rightarrow> Duration \<Rightarrow> VideoFrame list \<Rightarrow> bool" where
  "spacedWithin fd off [] = True"
| "spacedWithin fd off (f # fs) = (offsetOf f \<le> dur_add off fd \<and> spacedWithin fd (offsetOf f) fs)"


text \<open>
  The projection computed by \<^verbatim>\<open>noLockPosition\<close> while Playing, with \<open>now\<close> clamped to
  the reference time.
\<close>

definition projectedPosition :: "Duration \<Rightarrow> Time \<Rightarrow> Time \<Rightarrow> Duration" where
  "projectedPosition refPosition refTime now =
     dur_add refPosition (Time_Sub (max now refTime) refTime)"

text \<open>
  Calls and scheduler passes on a live controller, in sequence. A scheduler pass takes
  effect only while the goroutines of the session exist (the stop channel is not nil).
  Beside the controller, \<open>publishedAfter\<close> keeps the frame most recently published by
  the scheduler since the controller was last stopped, closed or started from Stopped.
\<close>

datatype liveEvent =
    EvPlay "error option" Time
  | EvPause Time
  | EvStop
  | EvClose
  | EvSeek Duration
  | EvSetLooping bool
  | EvSchedule VideoFrame Time Time

fun liveStep :: "liveEvent \<Rightarrow> streamVideoController \<Rightarrow> streamVideoController" where
  "liveStep (EvPlay networkInitErr now) c = snd (Play_st networkInitErr now c)"
| "liveStep (EvPause now) c = snd (Pause_st now c)"
| "liveStep EvStop c = snd (Stop_st c)"
| "liveStep EvClose c = snd (Close_st c)"
| "liveStep (EvSeek position) c = c"
| "liveStep (EvSetLooping loop) c = (case SetLooping_st loop c of Returned c' \<Rightarrow> c' | Panicked msg \<Rightarrow> c)"
| "liveStep (EvSchedule f nowBase nowPublish) c =
     (if stopCh c then scheduleFrame f nowBase nowPublish c else c)"

fun publishedAfter :: "liveEvent \<Rightarrow> streamVideoController \<Rightarrow> VideoFrame option \<Rightarrow> VideoFrame option" where
  "publishedAfter (EvPlay networkInitErr now) c g =
     (if networkInitErr = None \<and> state_st c = Stopped then None else g)"
| "publishedAfter EvStop c g = None"
| "publishedAfter EvClose c g = None"
| "publishedAfter (EvSchedule f nowBase nowPublish) c g =
     (if stopCh c then (case PresentationOffset f of Inl e \<Rightarrow> g | Inr pts \<Rightarrow> Some f) else g)"
| "publishedAfter ev c g = g"

fun liveRun ::
  "liveEvent list \<Rightarrow> streamVideoController \<times> VideoFrame option \<Rightarrow>
   streamVideoController \<times> VideoFrame option" where
  "liveRun [] cg = cg"
| "liveRun (ev # evs) (c, g) = liveRun evs (liveStep ev c, publishedAfter ev c g)"

text \<open>The message of the panic of \<^verbatim>\<open>Read\<close> under the strict policy.\<close>

definition partialSampleMessage :: string where
  "partialSampleMessage =
     ''ebitengine should only provide buffers multiple of 4 for serving L16 audio data''"



text \<open>
  The pin of the stopped position (a Stopped controller is at 0 or at the duration), and
  the calls on a video-only controller in sequence. \<open>pinnedRun\<close> runs a sequence of
  calls and is \<open>None\<close> when the sequence holds a seek below the duration, on a
  Stopped controller, that the decoder serves (the call returns no error).
\<close>

definition stoppedPinned :: "videoOnlyController \<Rightarrow> bool" where
  "stoppedPinned c =
     (if state c = Stopped then referencePosition c = 0 \<or> referencePosition c = duration c
      else True)"

datatype videoCall =
    CallPlay Time
  | CallPause Time
  | CallStop
  | CallClose
  | CallState Time
  | CallPosition Time
  | CallCurrentVideoFrame Time
  | CallSetLooping bool
  | CallSeek Duration Time

fun videoStep :: "videoCall \<Rightarrow> videoOnlyController \<Rightarrow> videoOnlyController" where
  "videoStep (CallPlay now) c = snd (Play now c)"
| "videoStep (CallPause now) c = snd (Pause now c)"
| "videoStep CallStop c = snd (Stop c)"
| "videoStep CallClose c = snd (Close c)"
| "videoStep (CallState now) c = snd (snd (State now c))"
| "videoStep (CallPosition now) c = snd (snd (Position now c))"
| "videoStep (CallCurrentVideoFrame now) c = snd (snd (snd (CurrentVideoFrame now c)))"
| "videoStep (CallSetLooping loop) c = SetLooping loop c"
| "videoStep (CallSeek position now) c = snd (snd (Seek position now c))"

fun seekServedWhileStopped :: "videoCall \<Rightarrow> videoOnlyController \<Rightarrow> bool" where
  "seekServedWhileStopped (CallSeek position now) c =
     (state c = Stopped \<and> position < duration c \<and> fst (snd (Seek position now c)) = None)"
| "seekServedWhileStopped call c = False"

fun pinnedRun :: "videoCall list \<Rightarrow> videoOnlyController \<Rightarrow> videoOnlyController option" where
  "pinnedRun [] c = Some c"
| "pinnedRun (call # calls) c =
     (if seekServedWhileStopped call c then None else pinnedRun calls (videoStep call c))"

section \<open>Test media and controllers\<close>

text \<open>
  Frames at a fixed cadence, the \<open>k\<close>-th at offset \<open>k\<close> times the frame duration. A file
  of video frames only, whose rewind to \<open>t\<close> continues at the first frame that does not
  start before \<open>t\<close> and whose opens and closes succeed; a ten-second file at 25 frames
  per second.
\<close>

definition frameAt :: "Duration \<Rightarrow> nat \<Rightarrow> VideoFrame" where
  "frameAt fd k = VideoFrame (Inr (int k * fd)) k"

definition cadenceFrames :: "Duration \<Rightarrow> nat \<Rightarrow> VideoFrame list" where
  "cadenceFrames fd n = map (frameAt fd) [0..<n]"

definition framePackets :: "VideoFrame list \<Rightarrow> Packet list" where
  "framePackets fs = map (\<lambda>f. PktVideo (Inr (Some f))) fs"

definition startsBefore :: "Duration \<Rightarrow> VideoFrame \<Rightarrow> bool" where
  "startsBefore t f = (case PresentationOffset f of Inl e \<Rightarrow> False | Inr off \<Rightarrow> off < t)"

definition fileMedia :: "VideoFrame list \<Rightarrow> Media" where
  "fileMedia fs =
     \<lparr>pending = framePackets fs,
      videoRewindResult = (\<lambda>t. Inr (framePackets (dropWhile (startsBefore t) fs))),
      audioRewindResult = (\<lambda>t. Inr (framePackets (dropWhile (startsBefore t) fs))),
      openDecodeErr = None, closeDecodeErr = None, videoOpenErr = None,
      videoCloseErr = None, audioOpenErr = None, audioCloseErr = None\<rparr>"

definition tenSecondFile :: Media where
  "tenSecondFile = fileMedia (cadenceFrames (40 * millisecond) 250)"

text \<open>
  Video-only controllers of a ten-second file at 25 frames per second: as
  \<^verbatim>\<open>newVideoOnlyController\<close> builds it; paused at 3s holding the frame at 3s; and made
  Playing with its reference time a duration \<open>d\<close> before the instant \<open>1000 * second\<close>, at
  which the examples make their calls.
\<close>

definition freshController :: "Media \<Rightarrow> videoOnlyController" where
  "freshController m =
     \<lparr>media = m, duration = 10 * second, frameDuration = 40 * millisecond,
      referenceTime = 0, referencePosition = 0, looping = False,
      videoPendingLoop = False, state = Stopped, lastReadFrame = None\<rparr>"

definition pausedAt3s :: videoOnlyController where
  "pausedAt3s = (freshController tenSecondFile)
     \<lparr>state := Paused, referencePosition := 3 * second,
      lastReadFrame := Some (frameAt (40 * millisecond) 75)\<rparr>"

definition playingFor :: "Duration \<Rightarrow> videoOnlyController \<Rightarrow> videoOnlyController" where
  "playingFor d c = c\<lparr>state := Playing, referenceTime := 1000 * second - d\<rparr>"

definition after2040ms :: videoOnlyController where
  "after2040ms = playingFor (2040 * millisecond) (freshController tenSecondFile)"



definition after11s :: videoOnlyController where
  "after11s = playingFor (11 * second) (freshController tenSecondFile)"



text \<open>
  The ten-second file on a decoder that refuses the rewind to 0 and serves every other
  rewind.
\<close>

definition rewindToStartRefused :: Media where
  "rewindToStartRefused =
     tenSecondFile\<lparr>videoRewindResult :=
       (\<lambda>t. if t = 0 then Inl (DecoderError 1) else videoRewindResult tenSecondFile t)\<rparr>"

text \<open>
  Live controllers: playing since the instant \<open>990 * second\<close> from position 3s, and as
  \<^verbatim>\<open>newStreamVideoController\<close> builds it; the video stream of the ten-second file.
\<close>

definition livePlaying :: streamVideoController where
  "livePlaying =
     \<lparr>media_st = tenSecondFile, state_st = Playing, referenceTime_st = 990 * second,
      referencePosition_st = 3 * second, lastReadFrame_st = None, havePTSBase = False,
      ptsBase = 0, wallBase = 0, jitter = defaultJitter,
      stopCh = True, decodedCh = True, errCh = True\<rparr>"

definition liveController :: streamVideoController where
  "liveController =
     \<lparr>media_st = tenSecondFile, state_st = Stopped, referenceTime_st = 0,
      referencePosition_st = 0, lastReadFrame_st = None, havePTSBase = False,
      ptsBase = 0, wallBase = 0, jitter = defaultJitter,
      stopCh = False, decodedCh = False, errCh = False\<rparr>"

definition plainStream :: VideoStream where
  "plainStream =
     \<lparr>frameRateNum = 25, frameRateDenom = 1, videoDurationResult = Inr (10 * second),
      width = 640, height = 360\<rparr>"

text \<open>
  An audio context of 44100 Hz, and audio-driven controllers after \<^verbatim>\<open>Play\<close>: one with
  1000 bytes of decoded audio left over, one with nothing left over and audio frames of
  400 bytes still to decode between video frames.
\<close>

definition stereoContext :: AudioContext where
  "stereoContext =
     \<lparr>contextSampleRate = 44100,
      newPlayerResult = Inr \<lparr>playerCloseErr = None, playerPlaying = False\<rparr>\<rparr>"

definition avPlaying :: "Media \<Rightarrow> videoWithAudioController" where
  "avPlaying m =
     \<lparr>media_av = m, context_av = stereoContext, duration_av = 10 * second,
      frameDuration_av = 40 * millisecond, looping_av = False, videoPendingLoop_av = False,
      state_av = Playing, lastReadFrame_av = None, leftoverVideo = [],
      audioPlayer = Some \<lparr>playerCloseErr = None, playerPlaying = True\<rparr>,
      leftoverAudio = [], firstAudioFrameOffsetOnPlay = 0,
      needsFirstAudioFrameOffset = True, staticPosition = 0\<rparr>"

definition avBuffered :: videoWithAudioController where
  "avBuffered = (avPlaying tenSecondFile)
     \<lparr>leftoverAudio := replicate 1000 7, needsFirstAudioFrameOffset := False\<rparr>"

definition interleavedFile :: Media where
  "interleavedFile =
     (fileMedia [])
       \<lparr>pending := [PktVideo (Inr (Some (frameAt (40 * millisecond) 0))),
                    PktAudio (Inr (Some (AudioFrame (Inr 0) (replicate 400 1)))),
                    PktOther,
                    PktVideo (Inr (Some (frameAt (40 * millisecond) 1))),
                    PktAudio (Inr (Some (AudioFrame (Inr 2267573) (replicate 400 2)))),
                    PktAudio (Inr (Some (AudioFrame (Inr 4535147) (replicate 400 3))))]\<rparr>"

definition avDecoding :: videoWithAudioController where
  "avDecoding = avPlaying interleavedFile"

text \<open>A file with one video stream and one audio stream of six channels (5.1 sound).\<close>

definition surroundAudio :: AudioStream where
  "surroundAudio =
     \<lparr>sampleRate = 44100, channelCount = 6, audioDurationResult = Inr (10 * second)\<rparr>"

definition surroundContainer :: Container where
  "surroundContainer =
     \<lparr>containerMedia = interleavedFile, videoStreams = [plainStream],
      audioStreams = [surroundAudio]\<rparr>"

text \<open>
  The ten-second file played with looping for 10.5s, the controller holding the frame
  of index \<open>j\<close>; and the same controller after the position computation has rebased it.
\<close>

definition loopingAfter :: "nat \<Rightarrow> videoOnlyController" where
  "loopingAfter j =
     (playingFor (10500 * millisecond) (freshController tenSecondFile))
       \<lparr>looping := True, lastReadFrame := Some (frameAt (40 * millisecond) j),
        media := tenSecondFile\<lparr>pending := framePackets (map (frameAt (40 * millisecond)) [Suc j..<250])\<rparr>\<rparr>"

definition rebased :: "nat \<Rightarrow> videoOnlyController" where
  "rebased j =
     (loopingAfter j)
       \<lparr>media := tenSecondFile, referenceTime := 1000 * second,
        referencePosition := 500 * millisecond, videoPendingLoop := True\<rparr>"


section \<open>Lemmas\<close>

subsection \<open>Durations, bits and lists\<close>

lemma wrap64_id: "- (2 ^ 63) \<le> x \<Longrightarrow> x < 2 ^ 63 \<Longrightarrow> wrap64 x = x"
  by (simp add: wrap64_def)

lemma wrap64_upper: "wrap64 x < 2 ^ 63"
  by (simp add: wrap64_def)

lemma in_range_aux:
  "(0::int) \<le> x \<Longrightarrow> x + fd \<le> y \<Longrightarrow> 0 < fd \<Longrightarrow> y < 2 ^ 62 \<Longrightarrow>
   x + fd < 2 ^ 63 \<and> - (2 ^ 63) \<le> x + fd"
  by simp

lemma dur_sub_exact:
  "- (2 ^ 63) \<le> a - b \<Longrightarrow> a - b < 2 ^ 63 \<Longrightarrow> dur_sub a b = a - b"
  by (simp add: dur_sub_def wrap64_id)

lemma Time_Sub_exact:
  "minDuration \<le> a - b \<Longrightarrow> a - b \<le> maxDuration \<Longrightarrow> Time_Sub a b = a - b"
  by (simp add: Time_Sub_def Let_def)

lemma clamp_is_max: "(if Time_After t now then t else now) = max now t"
  by (simp add: Time_After_def max_def)

lemma projectedPosition_exact:
  assumes "max now t - t \<le> maxDuration"
    and "minDuration \<le> rp + (max now t - t)" and "rp + (max now t - t) \<le> maxDuration"
  shows "projectedPosition rp t now = rp + (max now t - t)"
proof -
  have "minDuration \<le> 0" and "0 \<le> max now t - t"
    by (simp_all add: minDuration_def)
  then have "minDuration \<le> max now t - t"
    by (rule order_trans)
  then have s: "Time_Sub (max now t) t = max now t - t"
    using assms(1) by (rule Time_Sub_exact)
  show ?thesis
    unfolding projectedPosition_def s dur_add_def
    using assms(2,3) by (intro wrap64_id) (simp_all add: minDuration_def maxDuration_def)
qed

lemma consts_eval:
  "maxDuration = 9223372036854775807" "minDuration = - 9223372036854775808"
  "second = 1000000000" "millisecond = 1000000"
  by (simp_all add: maxDuration_def minDuration_def second_def millisecond_def)

lemma and_3_mod_4: "(n::nat) AND 3 = n mod 4"
proof -
  have a: "n AND mask 2 = n mod 2 ^ 2"
    by (simp flip: take_bit_eq_mask add: take_bit_eq_mod)
  have b: "(mask 2 :: nat) = 3"
    by (simp add: mask_eq_exp_minus_1)
  show ?thesis using a unfolding b by simp
qed

lemma and_MaxInt_minus_3:
  assumes "n < 2 ^ 63"
  shows "(n::nat) AND (MaxInt - 3) = 4 * (n div 4)"
proof -
  have m: "MaxInt - 3 = push_bit 2 (mask 61 :: nat)"
    by (simp add: MaxInt_def mask_eq_exp_minus_1 push_bit_eq_mult)
  have n: "n = push_bit 2 (drop_bit 2 n) + take_bit 2 n"
    by (simp add: bits_ident)
  have ss: "\<And>i. 2 \<le> i \<Longrightarrow> Suc (Suc (i - 2)) = i"
    by simp
  have d: "drop_bit 2 n < 2 ^ 61"
    using assms by (simp add: drop_bit_eq_div less_mult_imp_div_less)
  have "n AND push_bit 2 (mask 61) = push_bit 2 (drop_bit 2 n AND mask 61)"
    using ss by (intro bit_eqI) (auto simp: bit_and_iff bit_push_bit_iff bit_drop_bit_eq)
  also have "drop_bit 2 n AND mask 61 = drop_bit 2 n"
    using d by (simp flip: take_bit_eq_mask add: take_bit_nat_eq_self)
  finally show ?thesis
    by (simp add: m push_bit_eq_mult drop_bit_eq_div)
qed


lemma dropWhile_map_upt_from:
  assumes "\<And>i. j \<le> i \<Longrightarrow> i < k \<Longrightarrow> P (g i)" and "k < n \<Longrightarrow> \<not> P (g k)"
    and "j \<le> k" and "k \<le> n"
  shows "dropWhile P (map g [j..<n]) = map g [k..<n]"
proof -
  have split: "[j..<n] = [j..<k] @ [k..<n]"
    using assms(3,4) by (metis le_Suc_ex upt_add_eq_append)
  have a: "\<And>x. x \<in> set (map g [j..<k]) \<Longrightarrow> P x"
    using assms(1) by auto
  have b: "dropWhile P (map g [k..<n]) = map g [k..<n]"
  proof (cases "k < n")
    case True
    then show ?thesis using assms(2) by (simp add: upt_conv_Cons)
  next
    case False
    then show ?thesis by simp
  qed
  show ?thesis
    unfolding split map_append by (simp only: dropWhile_append2 [OF a] b)
qed


lemma upt_250_head2: "[0..<250] = 0 # 1 # [2..<250]"
  by (simp add: upt_rec [of 0 250] upt_rec [of "Suc 0" 250] numeral_2_eq_2 del: upt_rec_numeral)

lemma upt_1_250: "[1..<250] = 1 # [2..<250]"
  by (simp add: upt_rec [of "Suc 0" 250] numeral_2_eq_2 del: upt_rec_numeral)

lemma upt_12_250: "[12..<250] = 12 # [13..<250]"
  by (subst upt_rec) simp


subsection \<open>Reading frames and seeking\<close>

lemma readVideoFramePackets_skip:
  "list_all isSkipped pre \<Longrightarrow>
   readVideoFramePackets (pre @ ps) = readVideoFramePackets ps"
  by (induction pre rule: readVideoFramePackets.induct) auto

lemma read_first_frame:
  "list_all readable ps \<Longrightarrow> framesOf ps = g # gs \<Longrightarrow>
   \<exists>ps'. readVideoFramePackets ps = (Inr (Some g), ps') \<and> framesOf ps' = gs \<and>
         list_all readable ps' \<and> PresentationOffset g = Inr (offsetOf g)"
  by (induction ps rule: readVideoFramePackets.induct)
     (auto simp: offsetOf_def split: sum.splits)



lemma Seek_in_range:
  assumes "pos < duration c" and "videoRewind (max pos 0) (media c) = Inr m"
    and "pending m = pre @ PktVideo (Inr (Some f)) # rest" and "list_all isSkipped pre"
  shows "Seek pos now c = (Some f, None, c\<lparr>media := m\<lparr>pending := rest\<rparr>, lastReadFrame := Some f,
             referencePosition := max pos 0, referenceTime := now\<rparr>)"
  using assms
  by (simp add: Seek_def Let_def internalReadVideoFrame_def readVideoFramePackets_skip)

subsection \<open>The catch-up loop and the drain of the pending queue\<close>

text \<open>
  With no loop pending and a stale held frame, the catch-up loop of the video-only
  controller ends at the first frame of the stream that is not stale, and the drain loop
  of the audio-driven controller at the first such frame of the queue. When every frame
  is stale, the catch-up loop reads the stream to its end and takes the end-of-stream
  branch, and the drain loop ends on the last frame of the queue.
\<close>

lemma catchUp_fresh:
  assumes "\<not> videoPendingLoop c" and "list_all readable (pending (media c))"
    and "framesOf (pending (media c)) = fs"
    and "dur_add pres (frameDuration c) < p"
    and "dropWhile (stale p (frameDuration c)) fs = f # rest"
  shows "\<exists>c'. catchUp now p prev pres c = (Some f, False, None, c') \<and>
              lastReadFrame c' = Some f \<and> framesOf (pending (media c')) = rest \<and>
              list_all readable (pending (media c')) \<and>
              state c' = state c \<and> \<not> videoPendingLoop c' \<and>
              referencePosition c' = referencePosition c \<and> referenceTime c' = referenceTime c"
  using assms
proof (induction fs arbitrary: c prev pres)
  case Nil
  then show ?case by simp
next
  case (Cons g gs)
  from read_first_frame [OF Cons.prems(2,3)] obtain ps' where
    rd: "readVideoFramePackets (pending (media c)) = (Inr (Some g), ps')"
    and fr: "framesOf ps' = gs" and ok: "list_all readable ps'"
    and off: "PresentationOffset g = Inr (offsetOf g)" by blast
  let ?c2 = "c\<lparr>media := (media c)\<lparr>pending := ps'\<rparr>, lastReadFrame := Some g\<rparr>"
  have step: "catchUp now p prev pres c = catchUp now p pres (offsetOf g) ?c2"
    using Cons.prems(1,4) rd off
    by (subst catchUp.simps) (simp add: internalReadVideoFrame_def)
  show ?case
  proof (cases "stale p (frameDuration c) g")
    case True
    have "\<exists>c'. catchUp now p pres (offsetOf g) ?c2 = (Some f, False, None, c') \<and>
              lastReadFrame c' = Some f \<and> framesOf (pending (media c')) = rest \<and>
              list_all readable (pending (media c')) \<and>
              state c' = state ?c2 \<and> \<not> videoPendingLoop c' \<and>
              referencePosition c' = referencePosition ?c2 \<and> referenceTime c' = referenceTime ?c2"
      using Cons.prems True fr ok
      by (intro Cons.IH) (simp_all add: stale_def)
    then show ?thesis using step by simp
  next
    case False
    then have "f = g" "rest = gs" using Cons.prems(5) by simp_all
    moreover have "catchUp now p pres (offsetOf g) ?c2 = (Some g, False, None, ?c2)"
      using False Cons.prems(1)
      by (subst catchUp.simps) (simp add: stale_def)
    ultimately show ?thesis using step fr ok Cons.prems(1) by simp
  qed
qed

lemma spacedWithin_fresh_below:
  "spacedWithin fd off fs \<Longrightarrow> dur_add off fd < p \<Longrightarrow>
   dropWhile (stale p fd) fs = f # rest \<Longrightarrow> offsetOf f < p"
proof (induction fs arbitrary: off)
  case Nil
  then show ?case by simp
next
  case (Cons g gs)
  show ?case
  proof (cases "stale p fd g")
    case True
    then show ?thesis using Cons by (auto simp: stale_def)
  next
    case False
    then show ?thesis using Cons.prems by auto
  qed
qed









subsection \<open>The loop rebase\<close>

text \<open>
  With a loop pending, the catch-up loop reads the first two frames of the rewound
  stream, whatever the position, before it goes by staleness again.
\<close>

lemma noLockPosition_loop_rebase:
  assumes "state c = Playing" and "looping c"
    and "duration c \<le> projectedPosition (referencePosition c) (referenceTime c) now"
    and "videoRewind 0 (media c) = Inr m"
  shows "noLockPosition now c =
           (dur_sub (projectedPosition (referencePosition c) (referenceTime c) now) (duration c),
            False, None,
            c\<lparr>media := m, referenceTime := max now (referenceTime c),
              referencePosition :=
                dur_sub (projectedPosition (referencePosition c) (referenceTime c) now) (duration c),
              videoPendingLoop := True\<rparr>)"
  using assms
  by (simp add: noLockPosition_def clamp_is_max projectedPosition_def Let_def)

lemma noLockPosition_stays_Playing:
  "state c0 = Playing \<Longrightarrow> noLockPosition now c0 = (p, False, None, c) \<Longrightarrow> state c = Playing"
  by (auto simp: noLockPosition_def Let_def split: if_splits sum.splits prod.splits)

lemma catchUp_after_rewind:
  assumes pl: "videoPendingLoop c" and rd: "list_all readable (pending (media c))"
    and fr: "framesOf (pending (media c)) = g0 # g1 # gs"
    and lower: "offsetOf g0 < held"
    and dw: "dropWhile (stale p (frameDuration c)) (g1 # gs) = f # rest"
  shows "\<exists>c'. catchUp now p held held c = (Some f, False, None, c') \<and>
              lastReadFrame c' = Some f \<and> \<not> videoPendingLoop c' \<and> state c' = state c \<and>
              framesOf (pending (media c')) = rest \<and>
              referencePosition c' = referencePosition c \<and> referenceTime c' = referenceTime c"
proof -
  from read_first_frame [OF rd fr] obtain ps1 where
    r1: "readVideoFramePackets (pending (media c)) = (Inr (Some g0), ps1)"
    and f1: "framesOf ps1 = g1 # gs" and ok1: "list_all readable ps1"
    and o0: "PresentationOffset g0 = Inr (offsetOf g0)" by blast
  from read_first_frame [OF ok1 f1] obtain ps2 where
    r2: "readVideoFramePackets ps1 = (Inr (Some g1), ps2)"
    and f2: "framesOf ps2 = gs" and ok2: "list_all readable ps2"
    and o1: "PresentationOffset g1 = Inr (offsetOf g1)" by blast
  let ?c1 = "c\<lparr>media := (media c)\<lparr>pending := ps1\<rparr>, lastReadFrame := Some g0\<rparr>"
  let ?c2 = "c\<lparr>videoPendingLoop := False, media := (media c)\<lparr>pending := ps2\<rparr>,
               lastReadFrame := Some g1\<rparr>"
  have s1: "catchUp now p held held c = catchUp now p held (offsetOf g0) ?c1"
    using pl r1 o0 by (subst catchUp.simps) (simp add: internalReadVideoFrame_def)
  have s2: "catchUp now p held (offsetOf g0) ?c1 = catchUp now p (offsetOf g0) (offsetOf g1) ?c2"
    using pl lower r2 o1 by (subst catchUp.simps) (simp add: internalReadVideoFrame_def)
  show ?thesis
  proof (cases "stale p (frameDuration c) g1")
    case False
    then have "f = g1" "rest = gs" using dw by simp_all
    moreover have "catchUp now p (offsetOf g0) (offsetOf g1) ?c2 = (Some g1, False, None, ?c2)"
      using False by (subst catchUp.simps) (simp add: stale_def)
    ultimately show ?thesis using s1 s2 f2 by simp
  next
    case True
    then have dw': "dropWhile (stale p (frameDuration ?c2)) gs = f # rest"
      using dw by simp
    have st: "dur_add (offsetOf g1) (frameDuration ?c2) < p"
      using True by (simp add: stale_def)
    have "\<exists>c'. catchUp now p (offsetOf g0) (offsetOf g1) ?c2 = (Some f, False, None, c') \<and>
              lastReadFrame c' = Some f \<and> framesOf (pending (media c')) = rest \<and>
              list_all readable (pending (media c')) \<and>
              state c' = state ?c2 \<and> \<not> videoPendingLoop c' \<and>
              referencePosition c' = referencePosition ?c2 \<and> referenceTime c' = referenceTime ?c2"
      using ok2 f2 by (intro catchUp_fresh [OF _ _ _ st dw']) simp_all
    then show ?thesis using s1 s2 by auto
  qed
qed

lemma fresh_after_rewind_lower:
  assumes "dropWhile (stale p fd) (g1 # gs) = f # rest"
    and "offsetOf g1 < held" and "p \<le> held" and "spacedWithin fd (offsetOf g1) gs"
  shows "offsetOf f < held"
proof (cases "stale p fd g1")
  case False
  then show ?thesis using assms(1,2) by simp
next
  case True
  then have "dropWhile (stale p fd) gs = f # rest" "dur_add (offsetOf g1) fd < p"
    using assms(1) by (simp_all add: stale_def)
  from spacedWithin_fresh_below [OF assms(4) this(2) this(1)] show ?thesis
    using assms(3) by simp
qed

lemma CurrentVideoFrame_after_rewind:
  assumes "state c0 = Playing" and "noLockPosition now c0 = (p, False, None, c)"
    and "videoPendingLoop c" and "lastReadFrame c = Some h" and "PresentationOffset h = Inr held"
    and "list_all readable (pending (media c))"
    and "framesOf (pending (media c)) = g0 # g1 # gs" and "offsetOf g0 < held"
    and "dropWhile (stale p (frameDuration c)) (g1 # gs) = f # rest"
  shows "\<exists>c'. CurrentVideoFrame now c0 = (Some f, False, None, c') \<and>
              lastReadFrame c' = Some f \<and> \<not> videoPendingLoop c' \<and> state c' = state c"
proof -
  have "CurrentVideoFrame now c0 = catchUp now p held held c"
    using assms(1,2,4,5) by (simp add: CurrentVideoFrame_def)
  with catchUp_after_rewind [OF assms(3,6,7,8,9), of now] show ?thesis
    by auto
qed

subsection \<open>The stopped pin of the video-only controller\<close>

text \<open>
  Every call keeps a Stopped controller at 0 or at the duration, but a seek below the
  duration that the decoder serves on a Stopped controller; a seek that returns an error
  keeps it.
\<close>

lemma noLockStop_pinned:
  "videoStopMode = stopModeManual \<or> stoppedPinned c \<Longrightarrow>
   stoppedPinned (snd (noLockStop videoStopMode c))"
  by (cases videoStopMode)
     (auto simp: noLockStop_def stoppedPinned_def Let_def split: sum.splits option.splits)

lemma noLockPosition_pinned:
  "stoppedPinned c \<Longrightarrow> stoppedPinned (snd (snd (snd (noLockPosition now c))))"
  by (auto simp: noLockPosition_def noLockStop_def stoppedPinned_def Let_def
      split: sum.splits option.splits prod.splits)

lemma internalReadVideoFrame_fields:
  "internalReadVideoFrame c = (r, c') \<Longrightarrow>
   state c' = state c \<and> referencePosition c' = referencePosition c \<and> duration c' = duration c"
  by (auto simp: internalReadVideoFrame_def split: prod.splits)

lemma catchUp_pinned:
  "stoppedPinned c \<Longrightarrow> stoppedPinned (snd (snd (snd (catchUp now p prev pres c))))"
proof (induction now p prev pres c rule: catchUp.induct)
  case (1 now position prevPresOffset presOffset c)
  let ?c1 = "if videoPendingLoop c \<and> presOffset < prevPresOffset
             then c\<lparr>videoPendingLoop := False\<rparr> else c"
  show ?case
  proof (cases "dur_add presOffset (frameDuration c) < position \<or> videoPendingLoop c")
    case False
    then show ?thesis
      using "1.prems" by (subst catchUp.simps) simp
  next
    case True
    obtain r c2 where rd: "internalReadVideoFrame ?c1 = (r, c2)"
      by (cases "internalReadVideoFrame ?c1")
    from internalReadVideoFrame_fields [OF rd] "1.prems"
    have p2: "stoppedPinned c2"
      by (auto simp: stoppedPinned_def split: if_splits)
    show ?thesis
    proof (cases r)
      case (Inl e)
      then show ?thesis
        using True rd p2 by (subst catchUp.simps) simp
    next
      case (Inr fo)
      show ?thesis
      proof (cases fo)
        case None
        have "stoppedPinned (snd (noLockStop stopModeEndOfVideo c2))"
          using p2 by (intro noLockStop_pinned) simp
        then show ?thesis
          using True rd Inr None p2
          by (subst catchUp.simps)
             (auto simp: stoppedPinned_def split: sum.splits prod.splits)
      next
        case (Some frame)
        show ?thesis
        proof (cases "PresentationOffset frame")
          case (Inl e)
          then show ?thesis
            using True rd Inr Some p2 by (subst catchUp.simps) simp
        next
          case off: (Inr off)
          have "stoppedPinned (c2\<lparr>lastReadFrame := Some frame\<rparr>)"
            using p2 by (simp add: stoppedPinned_def)
          then have "stoppedPinned (snd (snd (snd (catchUp now position presOffset off
                        (c2\<lparr>lastReadFrame := Some frame\<rparr>)))))"
            by (rule "1.IH" [OF True rd [symmetric] Inr Some off])
          then show ?thesis
            using True rd Inr Some off by (subst catchUp.simps) simp
        qed
      qed
    qed
  qed
qed

lemma CurrentVideoFrame_pinned:
  "stoppedPinned c \<Longrightarrow> stoppedPinned (snd (snd (snd (CurrentVideoFrame now c))))"
proof -
  assume p: "stoppedPinned c"
  obtain pos ended err c1 where np: "noLockPosition now c = (pos, ended, err, c1)"
    by (cases "noLockPosition now c") auto
  from noLockPosition_pinned [OF p, of now] np have p1: "stoppedPinned c1"
    by simp
  show ?thesis
    using p p1 np catchUp_pinned [OF p1]
    by (auto simp: CurrentVideoFrame_def split: option.splits sum.splits)
qed

lemma Seek_refused_pinned:
  assumes "stoppedPinned c" and "fst (snd (Seek position now c)) \<noteq> None"
  shows "stoppedPinned (snd (snd (Seek position now c)))"
proof (cases "duration c \<le> position")
  case True
  then show ?thesis
    using noLockStop_pinned [of stopModeManual c]
    by (auto simp: Seek_def split: prod.splits)
next
  case False
  have "\<And>r c' c''. internalReadVideoFrame c'' = (r, c') \<Longrightarrow>
      state c' = state c'' \<and> referencePosition c' = referencePosition c'' \<and> duration c' = duration c''"
    using internalReadVideoFrame_fields by blast
  then show ?thesis
    using False assms
    by (auto simp: Seek_def stoppedPinned_def Let_def split: sum.splits prod.splits if_splits)
qed

lemma videoStep_pinned:
  assumes "stoppedPinned c" and "\<not> seekServedWhileStopped call c"
  shows "stoppedPinned (videoStep call c)"
proof (cases call)
  case (CallPlay now)
  then show ?thesis
    using assms(1) by (auto simp: Play_def stoppedPinned_def Let_def split: option.splits)
next
  case (CallPause now)
  obtain pos ended err c1 where np: "noLockPosition now c = (pos, ended, err, c1)"
    by (cases "noLockPosition now c") auto
  from noLockPosition_pinned [OF assms(1), of now] np have "stoppedPinned c1"
    by simp
  then show ?thesis
    using CallPause assms(1) np
    by (auto simp: Pause_def stoppedPinned_def split: option.splits)
next
  case CallStop
  then show ?thesis by (simp add: Stop_def noLockStop_pinned)
next
  case CallClose
  then show ?thesis by (simp add: Close_def noLockStop_pinned)
next
  case (CallState now)
  then show ?thesis
    using noLockPosition_pinned [OF assms(1), of now]
    by (auto simp: State_def split: prod.splits option.splits)
next
  case (CallPosition now)
  then show ?thesis
    using noLockPosition_pinned [OF assms(1), of now]
    by (auto simp: Position_def split: prod.splits)
next
  case (CallCurrentVideoFrame now)
  then show ?thesis
    using CurrentVideoFrame_pinned [OF assms(1)] by simp
next
  case (CallSetLooping loop)
  then show ?thesis
    using assms(1) by (simp add: SetLooping_def stoppedPinned_def)
next
  case (CallSeek position now)
  show ?thesis
  proof (cases "duration c \<le> position")
    case True
    then show ?thesis
      using CallSeek noLockStop_pinned [of stopModeManual c]
      by (auto simp: Seek_def split: prod.splits)
  next
    case False
    show ?thesis
    proof (cases "state c = Stopped")
      case True
      then have "fst (snd (Seek position now c)) \<noteq> None"
        using assms(2) CallSeek False by simp
      from Seek_refused_pinned [OF assms(1) this] show ?thesis
        using CallSeek by simp
    next
      case running: False
      moreover have "\<And>r c'. internalReadVideoFrame c'' = (r, c') \<Longrightarrow> state c' = state c''" for c''
        using internalReadVideoFrame_fields by blast
      ultimately show ?thesis
        using CallSeek False
        by (auto simp: Seek_def stoppedPinned_def Let_def split: sum.splits prod.splits)
    qed
  qed
qed

lemma pinnedRun_pinned:
  "stoppedPinned c \<Longrightarrow> pinnedRun calls c = Some c' \<Longrightarrow> stoppedPinned c'"
proof (induction calls arbitrary: c)
  case Nil
  then show ?case by simp
next
  case (Cons call calls)
  then show ?case
    using videoStep_pinned by (auto split: if_splits)
qed

subsection \<open>The published frame of the live controller\<close>

lemma liveStep_frame:
  "lastReadFrame_st c = g \<Longrightarrow> lastReadFrame_st (liveStep ev c) = publishedAfter ev c g"
  by (cases ev)
     (auto simp: Play_st_def Pause_st_def Stop_st_def Close_st_def noLockStop_st_def
        SetLooping_st_def scheduleFrame_def Let_def
        split: option.splits sum.splits prod.splits if_splits)

lemma liveRun_frame:
  "lastReadFrame_st c = g \<Longrightarrow> liveRun evs (c, g) = (c', g') \<Longrightarrow> lastReadFrame_st c' = g'"
proof (induction evs arbitrary: c g)
  case Nil
  then show ?case by simp
next
  case (Cons ev evs)
  from Cons.prems(2) have "liveRun evs (liveStep ev c, publishedAfter ev c g) = (c', g')"
    by simp
  with liveStep_frame [OF Cons.prems(1)] show ?case
    by (rule Cons.IH)
qed

subsection \<open>The bytes served by the audio pull\<close>

lemma noLockCopyLeftoverAudio_length:
  "noLockCopyLeftoverAudio n c = (k, bytes, c') \<Longrightarrow>
   k = min n (length (leftoverAudio c)) \<and> length bytes = k"
  by (auto simp: noLockCopyLeftoverAudio_def Let_def split: if_splits)

lemma decodeLoop_av_served:
  "decodeLoop_av need servedBytes written c = (k, data, err, c') \<Longrightarrow>
   servedBytes \<le> k \<and> k \<le> servedBytes + need \<and>
   length data = length written + (k - servedBytes) \<and>
   (err = None \<longrightarrow> k = servedBytes + need)"
proof (induction need servedBytes written c rule: decodeLoop_av.induct)
  case (1 need servedBytes written c)
  show ?case
  proof (cases "0 < need")
    case False
    then show ?thesis
      using "1.prems" by (subst (asm) decodeLoop_av.simps) simp
  next
    case True
    obtain e1 c1 where r: "internalReadAudioFrame c = (e1, c1)"
      by (cases "internalReadAudioFrame c")
    show ?thesis
    proof (cases "e1 = None \<and> length (leftoverAudio c1) \<noteq> 0")
      case False
      then show ?thesis
        using "1.prems" True r
        by (subst (asm) decodeLoop_av.simps)
           (auto split: option.splits prod.splits if_splits)
    next
      case more: True
      obtain cp bytes c2 where cp: "noLockCopyLeftoverAudio need c1 = (cp, bytes, c2)"
        by (cases "noLockCopyLeftoverAudio need c1")
      from noLockCopyLeftoverAudio_length [OF cp]
      have len: "cp = min need (length (leftoverAudio c1))" "length bytes = cp"
        by simp_all
      have rec: "decodeLoop_av (need - cp) (servedBytes + cp) (written @ bytes) c2 = (k, data, err, c')"
        using "1.prems" True r more cp
        by (subst (asm) decodeLoop_av.simps) simp
      have ih: "servedBytes + cp \<le> k \<and> k \<le> servedBytes + cp + (need - cp) \<and>
            length data = length (written @ bytes) + (k - (servedBytes + cp)) \<and>
            (err = None \<longrightarrow> k = servedBytes + cp + (need - cp))"
        using "1.IH" [OF True r [symmetric] _ _ cp [symmetric] refl rec] more
        by simp
      then show ?thesis
        using len by auto
    qed
  qed
qed

subsection \<open>Construction\<close>

lemma newPlayer_configuration_errors:
  "newPlayer (Inr (container\<lparr>videoStreams := []\<rparr>)) ignoreAudio ctx now = Returned (Inl ErrNoVideo)"
  "frameRateNum vs \<noteq> 0 \<Longrightarrow>
   newPlayer (Inr (container\<lparr>videoStreams := vs # vss, audioStreams := as # others\<rparr>))
     False None now = Returned (Inl ErrNilAudioContext)"
  "frameRateNum vs \<noteq> 0 \<Longrightarrow> contextSampleRate actx \<noteq> sampleRate as \<Longrightarrow>
   newPlayer (Inr (container\<lparr>videoStreams := vs # vss, audioStreams := as # others\<rparr>))
     False (Some actx) now = Returned (Inl ErrBadSampleRate)"
  by (simp_all add: newPlayer_def newVideoWithAudioController_def computeFrameDuration_def)

lemma newVideoWithAudioController_ignores_channels:
  "newVideoWithAudioController m vs (Some (as\<lparr>channelCount := k\<rparr>)) ctx =
   newVideoWithAudioController m vs (Some as) ctx"
  by (cases m; cases vs; cases ctx;
      simp add: newVideoWithAudioController_def split: outcome.splits sum.splits)

subsection \<open>The test media\<close>

lemma frameAt_offset:
  "PresentationOffset (frameAt fd j) = Inr (int j * fd)" "offsetOf (frameAt fd j) = int j * fd"
  by (simp_all add: frameAt_def offsetOf_def)

lemma dropWhile_cadence:
  assumes fd: "0 < fd" and kn: "k \<le> n"
  shows "dropWhile (startsBefore (int k * fd)) (cadenceFrames fd n) = map (frameAt fd) [k..<n]"
proof -
  have split: "[0..<n] = [0..<k] @ [k..<n]"
    using kn by (metis le_add_diff_inverse upt_add_eq_append zero_le)
  have a: "\<And>x. x \<in> set (map (frameAt fd) [0..<k]) \<Longrightarrow> startsBefore (int k * fd) x"
    using fd by (auto simp: startsBefore_def frameAt_def)
  have b: "dropWhile (startsBefore (int k * fd)) (map (frameAt fd) [k..<n]) = map (frameAt fd) [k..<n]"
  proof (cases "k < n")
    case True
    then show ?thesis
      by (simp add: upt_conv_Cons startsBefore_def frameAt_def)
  next
    case False
    then show ?thesis by simp
  qed
  show ?thesis
    unfolding cadenceFrames_def split map_append
    by (simp only: dropWhile_append2 [OF a] b)
qed

lemma framesOf_framePackets: "framesOf (framePackets fs) = fs"
  by (induction fs) (simp_all add: framePackets_def)

lemma readable_framePackets:
  "list_all (\<lambda>f. PresentationOffset f = Inr (offsetOf f)) fs \<Longrightarrow> list_all readable (framePackets fs)"
  by (induction fs) (simp_all add: framePackets_def)

lemma cadence_offsets_ok:
  "list_all (\<lambda>f. PresentationOffset f = Inr (offsetOf f)) (cadenceFrames fd n)"
  by (simp add: cadenceFrames_def list_all_iff frameAt_def offsetOf_def)

lemma spacedWithin_cadence:
  assumes "0 < fd" and "int n * fd < 2 ^ 62"
  shows "k \<le> n \<Longrightarrow> int k * fd \<le> dur_add off fd \<Longrightarrow>
         spacedWithin fd off (map (frameAt fd) [k..<n])"
proof (induction "n - k" arbitrary: k off)
  case 0
  then show ?case by simp
next
  case (Suc d)
  then have kn: "k < n" by simp
  have off: "offsetOf (frameAt fd k) = int k * fd"
    by (simp add: offsetOf_def frameAt_def)
  have le: "int k * fd + fd \<le> int n * fd"
  proof -
    have "int (Suc k) * fd \<le> int n * fd"
      using kn assms(1) by (intro mult_right_mono) simp_all
    then show ?thesis by (simp add: algebra_simps)
  qed
  have nn: "0 \<le> int k * fd"
    using assms(1) by simp
  have rng: "int k * fd + fd < 2 ^ 63" "- (2 ^ 63) \<le> int k * fd + fd"
    using in_range_aux [OF nn le assms] by blast+
  have nxt: "int (Suc k) * fd \<le> dur_add (int k * fd) fd"
    using rng by (simp add: dur_add_def wrap64_id algebra_simps)
  have "spacedWithin fd (int k * fd) (map (frameAt fd) [Suc k..<n])"
    using Suc.hyps(2) kn nxt by (intro Suc.hyps(1)) simp_all
  then show ?case
    using kn Suc.prems(2) by (simp add: upt_conv_Cons off)
qed

lemma stale_cadence:
  assumes "0 \<le> fd" and "int (Suc i) * fd < 2 ^ 63"
  shows "stale p fd (frameAt fd i) = (int (Suc i) * fd < p)"
proof -
  have "0 \<le> int (Suc i) * fd" using assms(1) by simp
  then have "wrap64 (int (Suc i) * fd) = int (Suc i) * fd"
    using assms(2) by (intro wrap64_id) simp_all
  then show ?thesis
    by (simp add: stale_def offsetOf_def frameAt_def dur_add_def algebra_simps)
qed

lemma loopingAfter_fields:
  "state (loopingAfter j) = Playing" "looping (loopingAfter j)"
  "duration (loopingAfter j) = 10 * second"
  "projectedPosition (referencePosition (loopingAfter j)) (referenceTime (loopingAfter j))
     (1000 * second) = 10500 * millisecond"
  "max (1000 * second) (referenceTime (loopingAfter j)) = 1000 * second"
  by (simp_all add: loopingAfter_def playingFor_def freshController_def projectedPosition_def
      Time_Sub_def dur_add_def wrap64_def consts_eval Let_def)

lemma loopingAfter_rewind: "videoRewind 0 (media (loopingAfter j)) = Inr tenSecondFile"
proof -
  have "dropWhile (startsBefore (int 0 * (40 * millisecond))) (cadenceFrames (40 * millisecond) 250)
        = map (frameAt (40 * millisecond)) [0..<250]"
    by (rule dropWhile_cadence) (simp_all add: millisecond_def)
  then have "dropWhile (startsBefore 0) (cadenceFrames (40 * millisecond) 250)
        = cadenceFrames (40 * millisecond) 250"
    by (simp add: cadenceFrames_def del: upt_rec_numeral)
  then show ?thesis
    by (simp add: videoRewind_def loopingAfter_def tenSecondFile_def fileMedia_def
        del: upt_rec_numeral)
qed

lemma rebased_fields:
  "videoPendingLoop (rebased j)" "lastReadFrame (rebased j) = Some (frameAt (40 * millisecond) j)"
  "frameDuration (rebased j) = 40 * millisecond"
  "list_all readable (pending (media (rebased j)))"
  "framesOf (pending (media (rebased j))) =
     frameAt (40 * millisecond) 0 # frameAt (40 * millisecond) 1
       # map (frameAt (40 * millisecond)) [2..<250]"
proof -
  show "videoPendingLoop (rebased j)"
    "lastReadFrame (rebased j) = Some (frameAt (40 * millisecond) j)"
    "frameDuration (rebased j) = 40 * millisecond"
    by (simp_all add: rebased_def loopingAfter_def playingFor_def freshController_def)
  have pe: "pending (media (rebased j)) = framePackets (cadenceFrames (40 * millisecond) 250)"
    by (simp add: rebased_def tenSecondFile_def fileMedia_def)
  show "list_all readable (pending (media (rebased j)))"
    unfolding pe by (rule readable_framePackets) (rule cadence_offsets_ok)
  show "framesOf (pending (media (rebased j))) =
     frameAt (40 * millisecond) 0 # frameAt (40 * millisecond) 1
       # map (frameAt (40 * millisecond)) [2..<250]"
    unfolding pe framesOf_framePackets cadenceFrames_def
    by (simp only: upt_250_head2 list.map)
qed

lemma loopingAfter_position:
  "noLockPosition (1000 * second) (loopingAfter j) = (500 * millisecond, False, None, rebased j)"
proof -
  have le: "duration (loopingAfter j) \<le>
      projectedPosition (referencePosition (loopingAfter j)) (referenceTime (loopingAfter j))
        (1000 * second)"
    unfolding loopingAfter_fields by (simp add: consts_eval)
  have ds: "dur_sub (10500 * millisecond) (10 * second) = 500 * millisecond"
    by (simp add: dur_sub_def wrap64_def consts_eval)
  show ?thesis
    using noLockPosition_loop_rebase [OF loopingAfter_fields(1,2) le loopingAfter_rewind]
    by (simp add: loopingAfter_fields ds rebased_def)
qed

lemma fresh_at_500ms:
  "dropWhile (stale (500 * millisecond) (40 * millisecond))
     (frameAt (40 * millisecond) 1 # map (frameAt (40 * millisecond)) [2..<250])
   = frameAt (40 * millisecond) 12 # map (frameAt (40 * millisecond)) [13..<250]"
proof -
  let ?fd = "40 * millisecond"
  have "dropWhile (stale (500 * millisecond) ?fd) (map (frameAt ?fd) [1..<250])
        = map (frameAt ?fd) [12..<250]"
  proof (rule dropWhile_map_upt_from)
    fix i :: nat
    assume "i < 12"
    then have "int (Suc i) \<le> 12" by simp
    then have "int (Suc i) * ?fd \<le> 12 * ?fd"
      by (intro mult_right_mono) (simp_all add: millisecond_def)
    then show "stale (500 * millisecond) ?fd (frameAt ?fd i)"
      by (subst stale_cadence) (simp_all add: millisecond_def)
  next
    show "\<not> stale (500 * millisecond) ?fd (frameAt ?fd 12)"
      by (subst stale_cadence) (simp_all add: millisecond_def)
  qed simp_all
  then show ?thesis
    by (simp only: upt_1_250 upt_12_250 list.map)
qed


section \<open>Claims\<close>

subsection \<open>Claim C1\<close>




subsection \<open>Claim C2\<close>




subsection \<open>Claim C3\<close>

text \<open>
  C3 on the code. The construction never looks at the channel count of the audio
  stream: a file with a six-channel audio stream, an audio context of the same sample
  rate and a video stream yields a player with an audio-driven controller and no error.
  \<^verbatim>\<open>ErrTooManyChannels\<close> is declared among the initialization errors and returned
  nowhere. The three other configuration errors are returned as the claim says
  (\<open>newPlayer_configuration_errors\<close>).
\<close>

theorem newPlayer_six_channels_accepted:
  "channelCount (hd (audioStreams surroundContainer)) = 6 \<and>
   (case newPlayer (Inr surroundContainer) False (Some stereoContext) 0 of
      Returned (Inr p) \<Rightarrow>
        (case controllerOf p of
           VideoWithAudio c \<Rightarrow> state_av c = Stopped \<and> duration_av c = 10 * second
         | VideoOnly c \<Rightarrow> False
         | StreamVideo c \<Rightarrow> False)
    | Returned (Inl e) \<Rightarrow> False
    | Panicked msg \<Rightarrow> False)"
  by (simp add: newPlayer_def newVideoWithAudioController_def computeFrameDuration_def
      surroundContainer_def surroundAudio_def plainStream_def stereoContext_def)

subsection \<open>Claim C4\<close>

text \<open>
  C4 on the code. \<^verbatim>\<open>noLockStop\<close> sets the state to Stopped and pins the position
  before it rewinds and closes the decoder, and it returns at the first of these calls
  that fails; \<^verbatim>\<open>Seek\<close> does not look at the playback state. Take a ten-second file on
  a decoder that refuses the rewind to 0: \<^verbatim>\<open>Play()\<close> opens the decoder and the stream,
  \<^verbatim>\<open>Stop()\<close> leaves the controller Stopped at 0 and returns the error of the rewind,
  without having reached \<^verbatim>\<open>stream.Close()\<close> and \<^verbatim>\<open>media.CloseDecode()\<close>, and
  \<^verbatim>\<open>Seek(5s)\<close>, served by the decoder that is still open, leaves the controller
  Stopped with the reference position, and \<^verbatim>\<open>Position()\<close>, at 5s, which is neither 0
  nor the duration. Every call other than a seek below the duration that the decoder
  serves on a Stopped controller keeps the pin (\<open>pinnedRun_pinned\<close>), and so does a
  seek that the decoder refuses (\<open>Seek_refused_pinned\<close>).
\<close>

theorem Seek_while_Stopped_leaves_pin:
  "newVideoOnlyController 0 (Some rewindToStartRefused) (Some plainStream) =
     Returned (Inr (freshController rewindToStartRefused)) \<and>
   state (freshController rewindToStartRefused) = Stopped \<and>
   (case Play (1000 * second) (freshController rewindToStartRefused) of
      (playErr, c1) \<Rightarrow>
        playErr = None \<and> state c1 = Playing \<and>
        (case Stop c1 of
           (stopErr, c2) \<Rightarrow>
             stopErr = Some (DecoderError 1) \<and> state c2 = Stopped \<and>
             referencePosition c2 = 0 \<and>
             (case Seek (5 * second) (1002 * second) c2 of
                (frame, seekErr, c3) \<Rightarrow>
                  frame = Some (frameAt (40 * millisecond) 125) \<and> seekErr = None \<and>
                  state c3 = Stopped \<and> referencePosition c3 = 5 * second \<and>
                  Position (1003 * second) c3 = (5 * second, None, c3) \<and>
                  Duration c3 = 10 * second)))"
proof -
  let ?m = rewindToStartRefused
  let ?c = "freshController ?m"
  let ?c1 = "?c\<lparr>referenceTime := 1000 * second, state := Playing\<rparr>"
  let ?c2 = "?c\<lparr>state := Stopped, referenceTime := 0\<rparr>"
  have n: "newVideoOnlyController 0 (Some ?m) (Some plainStream) = Returned (Inr ?c)"
    by (simp add: newVideoOnlyController_def computeFrameDuration_def plainStream_def
        freshController_def go_div_def wrap64_def second_def millisecond_def)
  have errs: "openDecodeErr ?m = None" "videoOpenErr ?m = None"
    by (simp_all add: rewindToStartRefused_def tenSecondFile_def fileMedia_def)
  have pl: "Play (1000 * second) ?c = (None, ?c1)"
    by (simp add: Play_def freshController_def errs Let_def)
  have r0: "videoRewind 0 ?m = Inl (DecoderError 1)"
    by (simp add: videoRewind_def rewindToStartRefused_def)
  have st: "Stop ?c1 = (Some (DecoderError 1), ?c2)"
    by (simp add: Stop_def noLockStop_def freshController_def r0 Let_def)
  have five: "5 * second = int 125 * (40 * millisecond)"
    by (simp add: second_def millisecond_def)
  have dw: "dropWhile (startsBefore (5 * second)) (cadenceFrames (40 * millisecond) 250)
            = map (frameAt (40 * millisecond)) [125..<250]"
    unfolding five by (rule dropWhile_cadence) (simp_all add: millisecond_def)
  have mx: "max (5 * second) 0 = 5 * second"
    by (simp add: second_def)
  have nz: "5 * second \<noteq> 0"
    by (simp add: second_def)
  have r: "videoRewind (max (5 * second) 0) (media ?c2) =
           Inr (?m\<lparr>pending := framePackets (map (frameAt (40 * millisecond)) [125..<250])\<rparr>)"
    unfolding mx videoRewind_def freshController_def rewindToStartRefused_def
      tenSecondFile_def fileMedia_def
    using nz by (simp add: dw del: upt_rec_numeral)
  have p: "pending (?m\<lparr>pending := framePackets (map (frameAt (40 * millisecond)) [125..<250])\<rparr>)
           = [] @ PktVideo (Inr (Some (frameAt (40 * millisecond) 125)))
               # framePackets (map (frameAt (40 * millisecond)) [126..<250])"
    by (simp add: framePackets_def upt_conv_Cons del: upt_rec_numeral)
  have lt: "5 * second < duration ?c2"
    by (simp add: freshController_def second_def)
  have sk: "list_all isSkipped []"
    by simp
  have s: "Seek (5 * second) (1002 * second) ?c2 =
     (Some (frameAt (40 * millisecond) 125), None,
      ?c2\<lparr>media := ?m\<lparr>pending :=
                      framePackets (map (frameAt (40 * millisecond)) [126..<250])\<rparr>,
          lastReadFrame := Some (frameAt (40 * millisecond) 125),
          referencePosition := 5 * second, referenceTime := 1002 * second\<rparr>)"
    using Seek_in_range [OF lt r p sk, of "1002 * second"] by (simp add: mx del: upt_rec_numeral)
  show ?thesis
    unfolding pl st s prod.case
    using n by (simp add: freshController_def Position_def noLockPosition_def Duration_def
        Let_def del: upt_rec_numeral)
qed

subsection \<open>Claim C5\<close>

text \<open>
  C5, as the code has it. With \<open>now\<close> clamped to the reference time when it lies before
  it (no error comes of it), the projected position is
  \<open>referencePosition + (now - referenceTime)\<close>, in 64-bit arithmetic and equal to the
  exact sum whenever that fits. The live controller returns the projection when Playing
  and the reference position otherwise, at every instant. The video-only controller
  returns the projection when Playing and the projection is below the duration, and the
  reference position when Paused or Stopped.
\<close>

theorem wall_clock_projection:
  "noLockPosition_st now s =
     (if state_st s = Playing
      then projectedPosition (referencePosition_st s) (referenceTime_st s) now
      else referencePosition_st s, False, None) \<and>
   (state c = Playing \<and>
    projectedPosition (referencePosition c) (referenceTime c) now < duration c \<longrightarrow>
      noLockPosition now c =
        (projectedPosition (referencePosition c) (referenceTime c) now, False, None, c)) \<and>
   (state c \<noteq> Playing \<longrightarrow> noLockPosition now c = (referencePosition c, False, None, c)) \<and>
   (max now t - t \<le> maxDuration \<and> minDuration \<le> rp + (max now t - t) \<and>
    rp + (max now t - t) \<le> maxDuration \<longrightarrow>
      projectedPosition rp t now = rp + (max now t - t))"
proof (intro conjI impI)
  show "noLockPosition_st now s =
     (if state_st s = Playing
      then projectedPosition (referencePosition_st s) (referenceTime_st s) now
      else referencePosition_st s, False, None)"
    by (simp add: noLockPosition_st_def clamp_is_max projectedPosition_def Let_def)
next
  assume "state c = Playing \<and>
    projectedPosition (referencePosition c) (referenceTime c) now < duration c"
  then show "noLockPosition now c =
        (projectedPosition (referencePosition c) (referenceTime c) now, False, None, c)"
    by (simp add: noLockPosition_def clamp_is_max projectedPosition_def Let_def)
next
  assume "state c \<noteq> Playing"
  then show "noLockPosition now c = (referencePosition c, False, None, c)"
    by (simp add: noLockPosition_def Let_def)
next
  assume "max now t - t \<le> maxDuration \<and> minDuration \<le> rp + (max now t - t) \<and>
    rp + (max now t - t) \<le> maxDuration"
  then show "projectedPosition rp t now = rp + (max now t - t)"
    using projectedPosition_exact by blast
qed

theorem wall_clock_projection_witness:
  "noLockPosition_st (1000 * second) livePlaying = (13 * second, False, None) \<and>
   noLockPosition_st (980 * second) livePlaying = (3 * second, False, None) \<and>
   state after2040ms = Playing \<and>
   noLockPosition (1000 * second) after2040ms = (2040 * millisecond, False, None, after2040ms) \<and>
   state pausedAt3s \<noteq> Playing \<and>
   noLockPosition (1000 * second) pausedAt3s = (3 * second, False, None, pausedAt3s) \<and>
   projectedPosition (3 * second) (990 * second) (1000 * second) = 13 * second"
proof -
  note w = wall_clock_projection [where s = livePlaying and c = after2040ms
      and now = "1000 * second" and t = "990 * second" and rp = "3 * second"]
  have ex: "max (1000 * second) (990 * second) - 990 * second \<le> maxDuration \<and>
      minDuration \<le> 3 * second + (max (1000 * second) (990 * second) - 990 * second) \<and>
      3 * second + (max (1000 * second) (990 * second) - 990 * second) \<le> maxDuration"
    by (simp add: consts_eval)
  have p13: "projectedPosition (3 * second) (990 * second) (1000 * second) = 13 * second"
    using w [THEN conjunct2, THEN conjunct2, THEN conjunct2, rule_format, OF ex]
    by (simp add: consts_eval)
  have live1: "noLockPosition_st (1000 * second) livePlaying = (13 * second, False, None)"
    using w [THEN conjunct1] p13 by (simp add: livePlaying_def)
  have live2: "noLockPosition_st (980 * second) livePlaying = (3 * second, False, None)"
    using wall_clock_projection [where s = livePlaying and now = "980 * second", THEN conjunct1]
    by (simp add: livePlaying_def projectedPosition_def Time_Sub_def dur_add_def wrap64_def
        consts_eval Let_def)
  have pl: "state after2040ms = Playing"
    by (simp add: after2040ms_def playingFor_def)
  have pp: "projectedPosition (referencePosition after2040ms) (referenceTime after2040ms)
              (1000 * second) = 2040 * millisecond"
    by (simp add: after2040ms_def playingFor_def freshController_def projectedPosition_def
        Time_Sub_def dur_add_def wrap64_def consts_eval Let_def)
  have lt: "projectedPosition (referencePosition after2040ms) (referenceTime after2040ms)
              (1000 * second) < duration after2040ms"
    unfolding pp by (simp add: after2040ms_def playingFor_def freshController_def consts_eval)
  have vo: "noLockPosition (1000 * second) after2040ms =
             (2040 * millisecond, False, None, after2040ms)"
    using w [THEN conjunct2, THEN conjunct1, rule_format, OF conjI [OF pl lt]] pp by simp
  have np: "state pausedAt3s \<noteq> Playing"
    by (simp add: pausedAt3s_def)
  have pa: "noLockPosition (1000 * second) pausedAt3s = (3 * second, False, None, pausedAt3s)"
    using wall_clock_projection [where c = pausedAt3s and now = "1000 * second",
        THEN conjunct2, THEN conjunct2, THEN conjunct1, rule_format, OF np]
    by (simp add: pausedAt3s_def)
  show ?thesis using live1 live2 pl vo np pa p13 by blast
qed

text \<open>
  C5 as stated fails for the video-only controller once the projection reaches the
  duration: playing a ten-second file for eleven seconds without looping, the returned
  position is 10s (and the controller stops), not \<open>0 + 11s\<close>.
\<close>

theorem noLockPosition_end_counterexample:
  "state after11s = Playing \<and> looping after11s = False \<and> duration after11s = 10 * second \<and>
   referencePosition after11s + (1000 * second - referenceTime after11s) = 11 * second \<and>
   fst (noLockPosition (1000 * second) after11s) = 10 * second \<and>
   fst (noLockPosition (1000 * second) after11s) \<noteq>
     referencePosition after11s + (1000 * second - referenceTime after11s)"
  by (simp add: after11s_def playingFor_def freshController_def noLockPosition_def noLockStop_def
      tenSecondFile_def fileMedia_def videoRewind_def
      Time_After_def Time_Sub_def dur_add_def wrap64_def consts_eval Let_def)

subsection \<open>Claim C6\<close>

text \<open>
  C6, as the code has it. For the video-only controller with looping enabled, when the
  projected position while Playing is at or beyond the duration and the stream rewinds
  without error, the position computation rebases the clock to the (clamped) \<open>now\<close>,
  returns the projection minus the duration (the excess \<open>\<Delta>\<close>), sets the pending-loop
  flag and stays Playing. The next \<^verbatim>\<open>CurrentVideoFrame()\<close>, when the first frame of the
  rewound stream has a lower offset than the held frame (it observes the rewind), decodes
  the first two frames of the rewound stream, clears the flag and returns the first frame
  from the second one on whose \<open>offset + frameDuration\<close> is not below the position. That
  offset is lower than the previously returned frame's when the previous offset is at
  least the position and above the second rewound frame's offset, and the rewound frames
  follow one another by at most \<open>frameDuration\<close>.
\<close>

theorem loop_wraparound:
  "(state c = Playing \<and> looping c \<and>
    duration c \<le> projectedPosition (referencePosition c) (referenceTime c) now \<and>
    videoRewind 0 (media c) = Inr m \<longrightarrow>
      noLockPosition now c =
        (dur_sub (projectedPosition (referencePosition c) (referenceTime c) now) (duration c),
         False, None,
         c\<lparr>media := m, referenceTime := max now (referenceTime c),
           referencePosition :=
             dur_sub (projectedPosition (referencePosition c) (referenceTime c) now) (duration c),
           videoPendingLoop := True\<rparr>) \<and>
      (0 \<le> duration c \<longrightarrow>
         dur_sub (projectedPosition (referencePosition c) (referenceTime c) now) (duration c) =
           projectedPosition (referencePosition c) (referenceTime c) now - duration c)) \<and>
   (state c0 = Playing \<and> noLockPosition now c0 = (p, False, None, c1) \<and>
    videoPendingLoop c1 \<and> lastReadFrame c1 = Some h \<and> PresentationOffset h = Inr held \<and>
    list_all readable (pending (media c1)) \<and>
    framesOf (pending (media c1)) = g0 # g1 # gs \<and> offsetOf g0 < held \<and>
    dropWhile (stale p (frameDuration c1)) (g1 # gs) = f # rest \<longrightarrow>
      (\<exists>c'. CurrentVideoFrame now c0 = (Some f, False, None, c') \<and>
            \<not> videoPendingLoop c' \<and> state c' = Playing) \<and>
      (offsetOf g1 < held \<and> p \<le> held \<and> spacedWithin (frameDuration c1) (offsetOf g1) gs \<longrightarrow>
         offsetOf f < held))"
proof (intro conjI impI)
  let ?P = "projectedPosition (referencePosition c) (referenceTime c) now"
  assume a: "state c = Playing \<and> looping c \<and> duration c \<le> ?P \<and> videoRewind 0 (media c) = Inr m"
  then show "noLockPosition now c =
        (dur_sub ?P (duration c), False, None,
         c\<lparr>media := m, referenceTime := max now (referenceTime c),
           referencePosition := dur_sub ?P (duration c), videoPendingLoop := True\<rparr>)"
    using noLockPosition_loop_rebase by blast
  assume d: "0 \<le> duration c"
  have "?P < 2 ^ 63"
    unfolding projectedPosition_def dur_add_def by (rule wrap64_upper)
  then have "?P - duration c < 2 ^ 63" and "- (2 ^ 63) \<le> ?P - duration c"
    using a d by simp_all
  then show "dur_sub ?P (duration c) = ?P - duration c"
    by (intro dur_sub_exact)
next
  assume b: "state c0 = Playing \<and> noLockPosition now c0 = (p, False, None, c1) \<and>
    videoPendingLoop c1 \<and> lastReadFrame c1 = Some h \<and> PresentationOffset h = Inr held \<and>
    list_all readable (pending (media c1)) \<and>
    framesOf (pending (media c1)) = g0 # g1 # gs \<and> offsetOf g0 < held \<and>
    dropWhile (stale p (frameDuration c1)) (g1 # gs) = f # rest"
  then have "state c1 = Playing"
    using noLockPosition_stays_Playing by blast
  moreover have "\<exists>c'. CurrentVideoFrame now c0 = (Some f, False, None, c') \<and>
              lastReadFrame c' = Some f \<and> \<not> videoPendingLoop c' \<and> state c' = state c1"
    using b by (intro CurrentVideoFrame_after_rewind) blast+
  ultimately show "\<exists>c'. CurrentVideoFrame now c0 = (Some f, False, None, c') \<and>
            \<not> videoPendingLoop c' \<and> state c' = Playing"
    by auto
  assume "offsetOf g1 < held \<and> p \<le> held \<and> spacedWithin (frameDuration c1) (offsetOf g1) gs"
  then show "offsetOf f < held"
    using b fresh_after_rewind_lower by blast
qed

theorem loop_wraparound_witness:
  "state (loopingAfter 249) = Playing \<and> looping (loopingAfter 249) \<and>
   noLockPosition (1000 * second) (loopingAfter 249) =
     (500 * millisecond, False, None, rebased 249) \<and>
   videoPendingLoop (rebased 249) \<and> state (rebased 249) = Playing \<and>
   referenceTime (rebased 249) = 1000 * second \<and>
   lastReadFrame (loopingAfter 249) = Some (frameAt (40 * millisecond) 249) \<and>
   fst (CurrentVideoFrame (1000 * second) (loopingAfter 249)) = Some (frameAt (40 * millisecond) 12) \<and>
   offsetOf (frameAt (40 * millisecond) 12) = 480 * millisecond \<and>
   offsetOf (frameAt (40 * millisecond) 249) = 9960 * millisecond \<and>
   offsetOf (frameAt (40 * millisecond) 12) < offsetOf (frameAt (40 * millisecond) 249)"
proof -
  let ?c = "loopingAfter 249" and ?fd = "40 * millisecond"
  note f = loopingAfter_fields [of 249] and rf = rebased_fields [of 249]
  have le: "duration ?c \<le> projectedPosition (referencePosition ?c) (referenceTime ?c) (1000 * second)"
    unfolding f by (simp add: consts_eval)
  have ds: "dur_sub (10500 * millisecond) (10 * second) = 500 * millisecond"
    by (simp add: dur_sub_def wrap64_def consts_eval)
  from loop_wraparound [where c = ?c and now = "1000 * second" and m = tenSecondFile,
      THEN conjunct1, rule_format, OF conjI [OF f(1) conjI [OF f(2) conjI [OF le loopingAfter_rewind]]],
      THEN conjunct1]
  have pos: "noLockPosition (1000 * second) ?c = (500 * millisecond, False, None, rebased 249)"
    by (simp add: f ds rebased_def)
  have held: "PresentationOffset (frameAt ?fd 249) = Inr (9960 * millisecond)"
    by (simp add: frameAt_offset)
  have lower: "offsetOf (frameAt ?fd 0) < 9960 * millisecond"
    by (simp add: frameAt_offset millisecond_def)
  have dw: "dropWhile (stale (500 * millisecond) (frameDuration (rebased 249)))
      (frameAt ?fd 1 # map (frameAt ?fd) [2..<250])
      = frameAt ?fd 12 # map (frameAt ?fd) [13..<250]"
    unfolding rf(3) by (rule fresh_at_500ms)
  have sp: "spacedWithin (frameDuration (rebased 249)) (offsetOf (frameAt ?fd 1))
      (map (frameAt ?fd) [2..<250])"
    unfolding rf(3)
    by (rule spacedWithin_cadence)
       (simp_all add: frameAt_offset millisecond_def dur_add_def wrap64_def)
  have side: "offsetOf (frameAt ?fd 1) < 9960 * millisecond \<and>
      500 * millisecond \<le> 9960 * millisecond \<and>
      spacedWithin (frameDuration (rebased 249)) (offsetOf (frameAt ?fd 1))
        (map (frameAt ?fd) [2..<250])"
    using sp by (simp add: frameAt_offset millisecond_def)
  note b = loop_wraparound [where ?c0.0 = ?c and now = "1000 * second" and ?c1.0 = "rebased 249"
      and p = "500 * millisecond" and h = "frameAt ?fd 249" and held = "9960 * millisecond"
      and ?g0.0 = "frameAt ?fd 0" and ?g1.0 = "frameAt ?fd 1"
      and gs = "map (frameAt ?fd) [2..<250]" and f = "frameAt ?fd 12"
      and rest = "map (frameAt ?fd) [13..<250]",
      THEN conjunct2, rule_format,
      OF conjI [OF f(1) conjI [OF pos conjI [OF rf(1) conjI [OF rf(2) conjI [OF held
         conjI [OF rf(4) conjI [OF rf(5) conjI [OF lower dw]]]]]]]]]
  from b [THEN conjunct1] have cur:
    "fst (CurrentVideoFrame (1000 * second) ?c) = Some (frameAt ?fd 12)"
    by auto
  from b [THEN conjunct2, rule_format, OF side]
  have low: "offsetOf (frameAt ?fd 12) < 9960 * millisecond" .
  have o12: "offsetOf (frameAt ?fd 12) = 480 * millisecond"
    and o249: "offsetOf (frameAt ?fd 249) = 9960 * millisecond"
    by (simp_all add: frameAt_offset)
  have st: "state (rebased 249) = Playing" "referenceTime (rebased 249) = 1000 * second"
    "lastReadFrame ?c = Some (frameAt ?fd 249)"
    by (simp_all add: rebased_def loopingAfter_def playingFor_def)
  show ?thesis
    using f(1,2) pos rf(1) st cur o12 low unfolding o249 by simp
qed

text \<open>
  C6 as stated fails when the frame returned before the wraparound was an early one:
  holding the frame at 80ms of the ten-second looping file and called again 10.5s after
  the start, \<^verbatim>\<open>CurrentVideoFrame()\<close> rebases the position to 0.5s and returns the frame
  at 480ms, whose offset is not lower than 80ms.
\<close>

theorem loop_wraparound_counterexample:
  "state (loopingAfter 2) = Playing \<and> looping (loopingAfter 2) \<and>
   fst (noLockPosition (1000 * second) (loopingAfter 2)) = 500 * millisecond \<and>
   lastReadFrame (loopingAfter 2) = Some (frameAt (40 * millisecond) 2) \<and>
   offsetOf (frameAt (40 * millisecond) 2) = 80 * millisecond \<and>
   fst (CurrentVideoFrame (1000 * second) (loopingAfter 2)) = Some (frameAt (40 * millisecond) 12) \<and>
   offsetOf (frameAt (40 * millisecond) 12) = 480 * millisecond \<and>
   \<not> offsetOf (frameAt (40 * millisecond) 12) < offsetOf (frameAt (40 * millisecond) 2)"
proof -
  let ?c = "loopingAfter 2" and ?fd = "40 * millisecond"
  note f = loopingAfter_fields [of 2] and rf = rebased_fields [of 2]
  have held: "PresentationOffset (frameAt ?fd 2) = Inr (80 * millisecond)"
    by (simp add: frameAt_offset)
  have lower: "offsetOf (frameAt ?fd 0) < 80 * millisecond"
    by (simp add: frameAt_offset millisecond_def)
  have dw: "dropWhile (stale (500 * millisecond) (frameDuration (rebased 2)))
      (frameAt ?fd 1 # map (frameAt ?fd) [2..<250])
      = frameAt ?fd 12 # map (frameAt ?fd) [13..<250]"
    unfolding rf(3) by (rule fresh_at_500ms)
  from CurrentVideoFrame_after_rewind [OF f(1) loopingAfter_position rf(1) rf(2) held rf(4) rf(5) lower dw]
  have cur: "fst (CurrentVideoFrame (1000 * second) ?c) = Some (frameAt ?fd 12)"
    by auto
  have "lastReadFrame ?c = Some (frameAt ?fd 2)"
    by (simp add: loopingAfter_def)
  then show ?thesis
    using f(1,2) cur by (simp add: loopingAfter_position frameAt_offset millisecond_def)
qed

subsection \<open>Claim C7\<close>

text \<open>
  C7. For a buffer whose length \<open>n\<close> (a Go \<^verbatim>\<open>int\<close>, so below \<open>2^63\<close>) is not a multiple
  of 4: under the truncation policy \<^verbatim>\<open>Read\<close> behaves exactly as on a buffer of the
  largest multiple of 4 not exceeding \<open>n\<close> (this is the policy the repository
  sets), it never serves more bytes than that, and
  it serves exactly that many whenever it returns without an error or end of stream
  (enough data was available); under the strict policy the call panics. The witness is
  the 777-byte request: 776 bytes, from left-over audio and from decoding.
\<close>

theorem Read_partial_sample_policy:
  assumes "n < 2 ^ 63" and "n mod 4 \<noteq> 0"
  shows "Read False n c = Read False (4 * (n div 4)) c \<and>
         Read panicOnPartialSampleReads n c = Read False (4 * (n div 4)) c \<and>
         Read True n c = Panicked partialSampleMessage \<and>
         (\<forall>k bytes err c'. Read False n c = Returned (k, bytes, err, c') \<longrightarrow>
            k \<le> 4 * (n div 4) \<and> length bytes = k \<and> (err = None \<longrightarrow> k = 4 * (n div 4)))"
proof (intro conjI allI impI)
  have a: "n AND 3 \<noteq> 0"
    using assms(2) by (simp add: and_3_mod_4)
  have b: "(4 * (n div 4)) AND 3 = 0"
    by (simp add: and_3_mod_4)
  show e: "Read False n c = Read False (4 * (n div 4)) c"
    using a b by (simp add: Read_def and_MaxInt_minus_3 [OF assms(1)])
  then show "Read panicOnPartialSampleReads n c = Read False (4 * (n div 4)) c"
    by (simp add: panicOnPartialSampleReads_def)
  show "Read True n c = Panicked partialSampleMessage"
    using a by (simp add: Read_def partialSampleMessage_def)
  fix k bytes err c'
  assume r: "Read False n c = Returned (k, bytes, err, c')"
  let ?n = "4 * (n div 4)"
  obtain cp bs c1 where cp:
    "(if 0 < length (leftoverAudio c) then noLockCopyLeftoverAudio ?n c else (0, [], c)) = (cp, bs, c1)"
    by (cases "if 0 < length (leftoverAudio c) then noLockCopyLeftoverAudio ?n c else (0, [], c)")
  have len: "cp \<le> ?n" "length bs = cp"
    using cp noLockCopyLeftoverAudio_length [of ?n c cp bs c1]
    by (auto split: if_splits)
  have "Read False n c =
      Returned (case (if 0 < length (leftoverAudio c) then noLockCopyLeftoverAudio ?n c else (0, [], c)) of
                  (copiedBytes, bytes, c1) \<Rightarrow>
                    if ?n - copiedBytes = 0 then (copiedBytes, bytes, None, c1)
                    else decodeLoop_av (?n - copiedBytes) copiedBytes bytes c1)"
    using a by (simp add: Read_def Let_def and_MaxInt_minus_3 [OF assms(1)])
  then have rd: "Read False n c =
      Returned (if ?n - cp = 0 then (cp, bs, None, c1) else decodeLoop_av (?n - cp) cp bs c1)"
    unfolding cp by simp
  have all: "k \<le> ?n \<and> length bytes = k \<and> (err = None \<longrightarrow> k = ?n)"
  proof (cases "?n - cp = 0")
    case True
    then have "(k, bytes, err, c') = (cp, bs, None, c1)"
      using r rd by simp
    then show ?thesis
      using len True by auto
  next
    case False
    then have "decodeLoop_av (?n - cp) cp bs c1 = (k, bytes, err, c')"
      using r rd by simp
    from decodeLoop_av_served [OF this] show ?thesis
      using len by auto
  qed
  show "k \<le> ?n" and "length bytes = k" and "err = None \<Longrightarrow> k = ?n"
    using all by simp_all
qed

theorem Read_partial_sample_policy_witness:
  "(777::nat) < 2 ^ 63 \<and> (777::nat) mod 4 \<noteq> 0 \<and>
   Read True 777 avBuffered = Panicked partialSampleMessage \<and>
   Read False 777 avBuffered =
     Returned (776, replicate 776 7, None, avBuffered\<lparr>leftoverAudio := replicate 224 7\<rparr>) \<and>
   (case Read False 777 avDecoding of
      Returned (k, bytes, err, c') \<Rightarrow>
        k = 776 \<and> bytes = replicate 400 1 @ replicate 376 2 \<and> err = None \<and>
        leftoverAudio c' = replicate 24 2 \<and> length (leftoverVideo c') = 2
    | Panicked msg \<Rightarrow> False)"
proof -
  have h: "(777::nat) < 2 ^ 63" "(777::nat) mod 4 \<noteq> 0"
    by simp_all
  note t = Read_partial_sample_policy [OF h]
  have e: "(776::nat) AND 3 = 0"
    by (simp add: and_3_mod_4)
  have b: "Read False 776 avBuffered =
     Returned (776, replicate 776 7, None, avBuffered\<lparr>leftoverAudio := replicate 224 7\<rparr>)"
    by (simp add: Read_def e avBuffered_def avPlaying_def noLockCopyLeftoverAudio_def Let_def)
  have d: "case Read False 776 avDecoding of
      Returned (k, bytes, err, c') \<Rightarrow>
        k = 776 \<and> bytes = replicate 400 1 @ replicate 376 2 \<and> err = None \<and>
        leftoverAudio c' = replicate 24 2 \<and> length (leftoverVideo c') = 2
    | Panicked msg \<Rightarrow> False"
    by (simp add: Read_def e avDecoding_def avPlaying_def interleavedFile_def fileMedia_def
        decodeLoop_av.simps internalReadAudioFrame_def noLockCopyLeftoverAudio_def Let_def)
  have s: "(4::nat) * (777 div 4) = 776"
    by simp
  show ?thesis
    using h t [of avBuffered, THEN conjunct1] t [of avDecoding, THEN conjunct1]
      t [of avBuffered, THEN conjunct2, THEN conjunct2, THEN conjunct1] b d
    unfolding s by simp
qed

subsection \<open>Claim C8\<close>

text \<open>
  C8, as the code has it. On the live-stream controller, for every argument and in
  every state, \<^verbatim>\<open>Seek\<close> returns a nil frame with the error "cannot seek in live stream"
  and does not panic; \<^verbatim>\<open>SetLooping\<close> returns normally, reports nothing and leaves the
  controller as it was (\<^verbatim>\<open>GetLooping\<close> stays false); \<^verbatim>\<open>Duration()\<close> is 0.
\<close>

theorem live_unsupported_operations:
  "Seek_st position c = Returned (None, Some ErrCannotSeekLive) \<and>
   SetLooping_st loop c = Returned c \<and>
   GetLooping_st c = False \<and>
   Duration_st c = 0"
  by (simp add: Seek_st_def SetLooping_st_def GetLooping_st_def Duration_st_def)

text \<open>
  C8 as stated fails for \<^verbatim>\<open>SetLooping\<close>: the call on a live controller, stopped or
  playing, is a normal return of the unchanged controller, with no error to report an
  unsupported operation.
\<close>

theorem SetLooping_st_counterexample:
  "SetLooping_st True liveController = Returned liveController \<and>
   SetLooping_st True livePlaying = Returned livePlaying \<and>
   (case SetLooping_st True liveController of Returned c \<Rightarrow> GetLooping_st c = False
    | Panicked msg \<Rightarrow> False)"
  by (simp add: SetLooping_st_def GetLooping_st_def)

subsection \<open>Claim C9\<close>

text \<open>
  C9. Calling \<^verbatim>\<open>Seek\<close> on the audio-driven controller panics for every position and in
  every state of the controller (whatever its playback state): the call is the panic
  \<^verbatim>\<open>"unimplemented"\<close> and never a normal return.
\<close>

theorem Seek_av_always_panics:
  "Seek_av position c = Panicked ''unimplemented'' \<and> (\<forall>r. Seek_av position c \<noteq> Returned r)"
  by (simp add: Seek_av_def)

subsection \<open>Claim C10\<close>

text \<open>
  C10, as the code has it. After any sequence of calls and scheduler passes on a newly
  made live controller, \<^verbatim>\<open>CurrentVideoFrame()\<close> returns the frame most recently published
  by the scheduler since the controller was last stopped, closed or started from
  Stopped, and nil when none has been published since; the end-reached flag is false and
  the error nil.
\<close>

theorem live_CurrentVideoFrame_published:
  assumes "newStreamVideoController (Some m) (Some vs) = Inr c0"
    and "liveRun evs (c0, None) = (c, g)"
  shows "CurrentVideoFrame_st c = (g, False, None)"
proof -
  have "lastReadFrame_st c0 = None"
    using assms(1) by (auto simp: newStreamVideoController_def)
  from liveRun_frame [OF this assms(2)] show ?thesis
    by (simp add: CurrentVideoFrame_st_def)
qed

theorem live_CurrentVideoFrame_published_witness:
  "newStreamVideoController (Some tenSecondFile) (Some plainStream) = Inr liveController \<and>
   CurrentVideoFrame_st (fst (liveRun [EvPlay None (1000 * second), EvPause (1001 * second)]
       (liveController, None))) = (None, False, None) \<and>
   CurrentVideoFrame_st (fst (liveRun
       [EvPlay None (1000 * second),
        EvSchedule (frameAt (40 * millisecond) 7) (1001 * second) (1001 * second),
        EvSchedule (frameAt (40 * millisecond) 8) (1002 * second) (1002 * second),
        EvPause (1003 * second)]
       (liveController, None))) = (Some (frameAt (40 * millisecond) 8), False, None)"
proof -
  have n: "newStreamVideoController (Some tenSecondFile) (Some plainStream) = Inr liveController"
    by (simp add: newStreamVideoController_def liveController_def)
  have od: "openDecodeErr tenSecondFile = None" "videoOpenErr tenSecondFile = None"
    by (simp_all add: tenSecondFile_def fileMedia_def)
  have g1: "snd (liveRun [EvPlay None (1000 * second), EvPause (1001 * second)]
       (liveController, None)) = None"
    by (simp add: liveController_def)
  have g2: "snd (liveRun
       [EvPlay None (1000 * second),
        EvSchedule (frameAt (40 * millisecond) 7) (1001 * second) (1001 * second),
        EvSchedule (frameAt (40 * millisecond) 8) (1002 * second) (1002 * second),
        EvPause (1003 * second)]
       (liveController, None)) = Some (frameAt (40 * millisecond) 8)"
    by (simp add: liveController_def Play_st_def od Let_def scheduleFrame_def frameAt_def)
  show ?thesis
    using n
      live_CurrentVideoFrame_published [OF n, of "[EvPlay None (1000 * second), EvPause (1001 * second)]"]
      live_CurrentVideoFrame_published [OF n, of "[EvPlay None (1000 * second),
        EvSchedule (frameAt (40 * millisecond) 7) (1001 * second) (1001 * second),
        EvSchedule (frameAt (40 * millisecond) 8) (1002 * second) (1002 * second),
        EvPause (1003 * second)]"]
      g1 g2
    by (metis prod.collapse)
qed

text \<open>
  C10 as stated fails after a stop: once the scheduler has published a frame,
  \<^verbatim>\<open>Stop()\<close> releases it and \<^verbatim>\<open>CurrentVideoFrame()\<close> returns nil, not the last
  published frame.
\<close>

theorem live_CurrentVideoFrame_stop_counterexample:
  "lastReadFrame_st (fst (liveRun
       [EvPlay None (1000 * second),
        EvSchedule (frameAt (40 * millisecond) 7) (1001 * second) (1001 * second)]
       (liveController, None))) = Some (frameAt (40 * millisecond) 7) \<and>
   CurrentVideoFrame_st (fst (liveRun
       [EvPlay None (1000 * second),
        EvSchedule (frameAt (40 * millisecond) 7) (1001 * second) (1001 * second),
        EvStop]
       (liveController, None))) = (None, False, None)"
  by (simp add: liveController_def Play_st_def tenSecondFile_def fileMedia_def Let_def
      scheduleFrame_def frameAt_def Stop_st_def noLockStop_st_def CurrentVideoFrame_st_def)

end
